theory Spec2Isabelle
  imports Complex_Main "HOL-Library.Word"
begin

section \<open>Strings of the runtime\<close>

text \<open>
  A JavaScript string is a sequence of UTF-16 code units: \<open>length\<close> counts code units
  and \<open>substring\<close>, \<open>slice\<close> and \<open>split\<close> cut between them. The model is a list of
  16-bit words. \<open>lit\<close> embeds an ASCII literal of the source; code units outside ASCII
  are written as numbers.
\<close>

type_synonym unit16 = "16 word"
type_synonym jsstring = "unit16 list"

definition lit :: "string \<Rightarrow> jsstring" where
  "lit s = map (\<lambda>c. of_char c) s"

definition space :: unit16 where
  "space = 0x20"

text \<open>The code units that \<open>trim\<close> removes: WhiteSpace and LineTerminator of ECMAScript.\<close>

definition whitespace :: "unit16 \<Rightarrow> bool" where
  "whitespace c \<longleftrightarrow>
     c = 0x09 \<or> c = 0x0A \<or> c = 0x0B \<or> c = 0x0C \<or> c = 0x0D \<or> c = 0x20 \<or> c = 0xA0 \<or>
     c = 0x1680 \<or> (0x2000 \<le> c \<and> c \<le> 0x200A) \<or> c = 0x2028 \<or> c = 0x2029 \<or>
     c = 0x202F \<or> c = 0x205F \<or> c = 0x3000 \<or> c = 0xFEFF"

text \<open>\<open>s.split(d)\<close> for a one-unit separator: the fields between the separators, empty
  fields kept; the empty string has the one field \<open>""\<close>.\<close>

fun js_split :: "'a \<Rightarrow> 'a list \<Rightarrow> 'a list list" where
  "js_split d [] = [[]]"
| "js_split d (c # cs) =
     (if c = d then [] # js_split d cs
      else (case js_split d cs of [] \<Rightarrow> [[c]] | w # ws \<Rightarrow> (c # w) # ws))"

text \<open>\<open>xs.join(sep)\<close>.\<close>

fun join :: "'a list \<Rightarrow> 'a list list \<Rightarrow> 'a list" where
  "join sep [] = []"
| "join sep [x] = x"
| "join sep (x # y # ys) = x @ sep @ join sep (y # ys)"

section \<open>Title derivation\<close>

text \<open>
  \<^verbatim>\<open>
  function extractTitle(outline: string): string {
    const words = outline.split(' ').slice(0, 6).join(' ');
    return words.length > 50 ? words.substring(0, 50) + '...' : words;
  }
  \<close>
\<close>

definition first_six :: "jsstring \<Rightarrow> jsstring" where
  "first_six outline = join [space] (take 6 (js_split space outline))"

definition extractTitle :: "jsstring \<Rightarrow> jsstring" where
  "extractTitle outline =
     (let words = first_six outline
      in if length words > 50 then take 50 words @ lit ''...'' else words)"




section \<open>Values, errors and property access\<close>

text \<open>
  A parsed JSON document. A number is the parsed value, of which the code only ever asks
  whether it is zero. A JavaScript value that may also be \<open>undefined\<close> is a
  \<open>json option\<close>, with \<open>None\<close> for \<open>undefined\<close>.
\<close>

datatype json =
    JNull
  | JBool bool
  | JNum rat
  | JStr jsstring
  | JArr "json list"
  | JObj "(jsstring \<times> json) list"

text \<open>
  The \<open>error\<close> member of a reply of the store client: a plain object
  \<open>{message, details, hint, code}\<close>, not an instance of \<open>Error\<close>.
\<close>

record store_error =
  error_message :: jsstring
  error_details :: jsstring
  error_hint :: jsstring
  error_code :: jsstring

text \<open>
  A thrown value: an instance of \<open>Error\<close> with its message and stack, the error object of
  the store client, or any other value, carried as the string that \<open>String(error)\<close> makes
  of it. The catch blocks read \<open>error instanceof Error ? error.message : String(error)\<close>
  and \<open>error instanceof Error ? error.stack : undefined\<close>; \<open>String\<close> of a plain object is
  \<open>[object Object]\<close>.
\<close>

datatype jserror =
    Error jsstring "jsstring option"
  | StoreError store_error
  | Thrown jsstring

fun describe :: "jserror \<Rightarrow> jsstring" where
  "describe (Error message stack) = message"
| "describe (StoreError e) = lit ''[object Object]''"
| "describe (Thrown s) = s"

fun stack_of :: "jserror \<Rightarrow> jsstring option" where
  "stack_of (Error message stack) = stack"
| "stack_of (StoreError e) = None"
| "stack_of (Thrown s) = None"

text \<open>
  \<open>new Error(message)\<close> in the adapters, and the \<open>TypeError\<close> the runtime throws on a
  property read of \<open>undefined\<close> or \<open>null\<close> or on a call of something that is not a
  function. Both are instances of \<open>Error\<close>. The message of a \<open>TypeError\<close> is the text of
  V8, the engine of the Node.js runtime the route runs on:
  \<open>Cannot read properties of undefined (reading 'name')\<close> and
  \<open>callee.name is not a function\<close>. The stack text is not modelled: these errors are
  thrown inside the adapters only, where the fallback chain catches them and reads the
  message.
\<close>

definition new_Error :: "jsstring \<Rightarrow> jserror" where
  "new_Error message = Error message None"

definition TypeError :: "jsstring \<Rightarrow> jserror" where
  "TypeError message = Error message None"

definition cannot_read :: "jsstring \<Rightarrow> jsstring \<Rightarrow> jserror" where
  "cannot_read what name =
     TypeError (lit ''Cannot read properties of '' @ what @ lit '' (reading '' @ [0x27] @
       name @ [0x27] @ lit '')'')"

definition not_a_function :: "jsstring \<Rightarrow> jsstring \<Rightarrow> jserror" where
  "not_a_function callee name =
     TypeError (callee @ lit ''.'' @ name @ lit '' is not a function'')"

text \<open>Truthiness, as \<open>!v\<close>, \<open>v || d\<close> and \<open>if (v)\<close> test it.\<close>

fun truthy :: "json option \<Rightarrow> bool" where
  "truthy None = False"
| "truthy (Some JNull) = False"
| "truthy (Some (JBool b)) = b"
| "truthy (Some (JNum n)) = (n \<noteq> 0)"
| "truthy (Some (JStr s)) = (s \<noteq> [])"
| "truthy (Some (JArr xs)) = True"
| "truthy (Some (JObj kvs)) = True"

text \<open>\<open>v === undefined || v === null\<close>, the test behind \<open>?.\<close> and \<open>??\<close>.\<close>

fun nullish :: "json option \<Rightarrow> bool" where
  "nullish None = True"
| "nullish (Some JNull) = True"
| "nullish (Some v) = False"

text \<open>
  \<open>v.name\<close> for a property name that is neither \<open>length\<close> nor an index and that no
  prototype defines (\<open>candidates\<close>, \<open>content\<close>, \<open>parts\<close>, \<open>text\<close>, \<open>role\<close>, ...):
  a \<open>TypeError\<close> on \<open>undefined\<close> and \<open>null\<close>, the member of an object, \<open>undefined\<close>
  on every other value.
\<close>

fun member :: "json option \<Rightarrow> jsstring \<Rightarrow> jserror + json option" where
  "member None name = Inl (cannot_read (lit ''undefined'') name)"
| "member (Some JNull) name = Inl (cannot_read (lit ''null'') name)"
| "member (Some (JObj kvs)) name = Inr (map_of kvs name)"
| "member (Some v) name = Inr None"

text \<open>\<open>v.length\<close>: the number of elements of an array, of code units of a string.\<close>

fun length_of :: "json option \<Rightarrow> jserror + json option" where
  "length_of None = Inl (cannot_read (lit ''undefined'') (lit ''length''))"
| "length_of (Some JNull) = Inl (cannot_read (lit ''null'') (lit ''length''))"
| "length_of (Some (JArr xs)) = Inr (Some (JNum (of_nat (length xs))))"
| "length_of (Some (JStr s)) = Inr (Some (JNum (of_nat (length s))))"
| "length_of (Some (JObj kvs)) = Inr (map_of kvs (lit ''length''))"
| "length_of (Some v) = Inr None"

text \<open>\<open>v[0]\<close>: the first element of an array, the first code unit of a string as a
  string, the member \<open>"0"\<close> of an object.\<close>

fun first :: "json option \<Rightarrow> jserror + json option" where
  "first None = Inl (cannot_read (lit ''undefined'') (lit ''0''))"
| "first (Some JNull) = Inl (cannot_read (lit ''null'') (lit ''0''))"
| "first (Some (JArr xs)) = Inr (case xs of [] \<Rightarrow> None | x # _ \<Rightarrow> Some x)"
| "first (Some (JStr s)) = Inr (case s of [] \<Rightarrow> None | c # _ \<Rightarrow> Some (JStr [c]))"
| "first (Some (JObj kvs)) = Inr (map_of kvs (lit ''0''))"
| "first (Some v) = Inr None"

fun isArray :: "json option \<Rightarrow> bool" where
  "isArray (Some (JArr xs)) = True"
| "isArray v = False"

section \<open>Cleaning the generated text\<close>

text \<open>
  \<open>s.includes(sub)\<close>, \<open>s.trim()\<close> and \<open>s.replace(/pat\n?/g, '')\<close> for a literal,
  non-empty \<open>pat\<close>: scanning from the left, every occurrence of \<open>pat\<close> is removed together
  with one line feed that follows it, and the scan goes on behind the removed text.
\<close>

fun js_includes :: "'a list \<Rightarrow> 'a list \<Rightarrow> bool" where
  "js_includes [] sub = (sub = [])"
| "js_includes (c # cs) sub = (take (length sub) (c # cs) = sub \<or> js_includes cs sub)"

definition trim :: "jsstring \<Rightarrow> jsstring" where
  "trim s = rev (dropWhile whitespace (rev (dropWhile whitespace s)))"

definition after_fence :: "jsstring \<Rightarrow> jsstring \<Rightarrow> jsstring option" where
  "after_fence pat s =
     (if pat \<noteq> [] \<and> take (length pat) s = pat
      then Some (case drop (length pat) s of
                   [] \<Rightarrow> []
                 | n # rest \<Rightarrow> if n = 0x0A then rest else n # rest)
      else None)"

lemma after_fence_shorter: "after_fence pat s = Some rest \<Longrightarrow> length rest < length s"
  by (cases pat; cases s)
    (auto simp: after_fence_def split: if_splits list.splits dest!: arg_cong [where f = length])

function remove_fences :: "jsstring \<Rightarrow> jsstring \<Rightarrow> jsstring" where
  "remove_fences pat [] = []"
| "remove_fences pat (c # cs) =
     (case after_fence pat (c # cs) of
        Some rest \<Rightarrow> remove_fences pat rest
      | None \<Rightarrow> c # remove_fences pat cs)"
  by pat_completeness auto
termination
  by (relation "measure (\<lambda>(pat, s). length s)") (auto dest: after_fence_shorter)

text \<open>
  \<^verbatim>\<open>
  content.replace(/```typescript\n?/g, '').replace(/```ts\n?/g, '').replace(/```\n?/g, '').trim()
  \<close>
\<close>

definition strip_fences :: "jsstring \<Rightarrow> jsstring" where
  "strip_fences content =
     trim (remove_fences (lit ''```'')
       (remove_fences (lit ''```ts'')
         (remove_fences (lit ''```typescript'') content)))"

text \<open>The decimal digits of a number, as \<open>`${response.status}`\<close> prints an HTTP status.\<close>

fun decimal :: "nat \<Rightarrow> jsstring" where
  "decimal n =
     (if n < 10 then [0x30 + of_nat n]
      else decimal (n div 10) @ [0x30 + of_nat (n mod 10)])"

section \<open>Lesson records, traces and the environment\<close>

text \<open>
  The metadata an adapter stores in the trace: \<open>{model, finishReason, safetyRatings}\<close>
  from the Gemini adapter, \<open>{id, created, model}\<close> from the Helicone adapter.
\<close>

datatype metadata =
    GeminiMetadata json "json option" "json option"
  | HeliconeMetadata "json option" "json option" "json option"

text \<open>The trace object of a generation run. A member that is \<open>undefined\<close> or was never
  assigned is \<open>None\<close>; \<open>mock\<close> is only ever assigned \<open>true\<close>; \<open>trace_output\<close> is
  the member \<open>output\<close>.\<close>

record gen_trace =
  prompt :: jsstring
  timestamp :: jsstring
  provider :: "jsstring option"
  model :: "jsstring option"
  trace_output :: "jsstring option"
  mock :: "bool option"
  fallback_reason :: "jsstring option"
  response_metadata :: "metadata option"

text \<open>The \<open>trace\<close> column holds the trace of a run or, after a failure, the object
  \<open>{error, stack, timestamp}\<close>.\<close>

datatype trace =
    Trace gen_trace
  | Failure (error: jsstring) (stack: "jsstring option") (failed_at: jsstring)

datatype status = Generating | Generated | Failed

text \<open>A row of the \<open>lessons\<close> table (\<open>Lesson\<close> of \<open>lib/types.ts\<close>); \<open>lesson_id\<close> and
  \<open>lesson_outline\<close> are its columns \<open>id\<close> and \<open>outline\<close>.\<close>

record lesson =
  lesson_id :: jsstring
  lesson_outline :: jsstring
  title :: "jsstring option"
  content :: "jsstring option"
  status :: status
  trace :: "trace option"
  created_at :: jsstring

text \<open>The columns \<open>outline\<close>, \<open>title\<close> and \<open>status\<close> of the insert of \<open>POST\<close>, and the
  columns \<open>content\<close>, \<open>status\<close> and \<open>trace\<close> of an update: \<open>content\<close> is part of the
  update to \<open>Generated\<close> only (\<open>set_content\<close> is \<open>None\<close> in the update to \<open>Failed\<close>).\<close>

record new_lesson =
  new_outline :: jsstring
  new_title :: jsstring
  new_status :: status

record patch =
  set_content :: "jsstring option"
  set_status :: status
  set_trace :: trace

type_synonym store = "jsstring \<rightharpoonup> lesson"

text \<open>The response of \<open>fetch\<close>: \<open>response.ok\<close>, \<open>response.status\<close>, and what
  \<open>response.text()\<close> and \<open>response.json()\<close> resolve to or reject with.\<close>

record response =
  ok :: bool
  http_status :: nat
  body_text :: "jserror + jsstring"
  body_json :: "jserror + json"

text \<open>
  Everything outside the route: the two credentials of \<open>process.env\<close>, the runtime's
  \<open>String.prototype.toLowerCase\<close> (a Unicode table, left open), the OpenAI client behind
  the Helicone gateway and \<open>fetch\<close> as functions of the prompt, the two readings of the
  clock (\<open>new Date().toISOString()\<close> when the trace is built and in the catch block), and
  the record store. The store client resolves every request to a reply object and reports
  a failure in its \<open>error\<close> member, a plain object, which is what the route destructures:
  \<open>insert_reply\<close> is the error or the \<open>id\<close> and \<open>created_at\<close> the table gives the new
  row, \<open>update_reply\<close> the error of an update, if any.
\<close>

record world =
  HELICONE_API_KEY :: "jsstring option"
  GEMINI_API_KEY :: "jsstring option"
  toLowerCase :: "jsstring \<Rightarrow> jsstring"
  openai_create :: "jsstring \<Rightarrow> jserror + json"
  fetch :: "jsstring \<Rightarrow> jserror + response"
  clock_trace :: jsstring
  clock_catch :: jsstring
  insert_reply :: "new_lesson \<Rightarrow> store_error + jsstring \<times> jsstring"
  update_reply :: "jsstring \<Rightarrow> patch \<Rightarrow> store_error option"

text \<open>
  The table: an insert that is accepted adds the row, with the columns that the insert
  does not give at their defaults (\<open>content\<close> and \<open>trace\<close> null); an update that is
  accepted overwrites the columns it names in the row with that id; a request that the
  store answers with an error changes nothing.
\<close>

definition insert_row ::
  "world \<Rightarrow> new_lesson \<Rightarrow> store \<Rightarrow> (store_error + lesson) \<times> store" where
  "insert_row w columns st =
     (case insert_reply w columns of
        Inl e \<Rightarrow> (Inl e, st)
      | Inr (i, t) \<Rightarrow>
          (let row = \<lparr>lesson_id = i, lesson_outline = new_outline columns,
                      title = Some (new_title columns), content = None,
                      status = new_status columns, trace = None, created_at = t\<rparr>
           in (Inr row, st(i \<mapsto> row))))"

definition apply_patch :: "patch \<Rightarrow> lesson \<Rightarrow> lesson" where
  "apply_patch p row =
     row\<lparr>content := (case set_content p of None \<Rightarrow> content row | Some c \<Rightarrow> Some c),
         status := set_status p,
         trace := Some (set_trace p)\<rparr>"

definition update_row ::
  "world \<Rightarrow> jsstring \<Rightarrow> patch \<Rightarrow> store \<Rightarrow> store_error option \<times> store" where
  "update_row w i p st =
     (case update_reply w i p of
        Some e \<Rightarrow> (Some e, st)
      | None \<Rightarrow> (None, case st i of None \<Rightarrow> st | Some row \<Rightarrow> st(i \<mapsto> apply_patch p row)))"

section \<open>The provider adapters\<close>

text \<open>
  \<open>callee.replace(...).replace(...).replace(...).trim()\<close> of both adapters: the fences are
  stripped from a string; on any other value the first \<open>replace\<close> throws a \<open>TypeError\<close>
  that names the callee as the source writes it, \<open>content\<close> in the Gemini adapter and
  \<open>(content || "")\<close> in the Helicone adapter.
\<close>

definition cleaned :: "jsstring \<Rightarrow> json option \<Rightarrow> jserror + jsstring" where
  "cleaned callee v =
     (case v of
        Some (JStr s) \<Rightarrow> Inr (strip_fences s)
      | None \<Rightarrow> Inl (cannot_read (lit ''undefined'') (lit ''replace''))
      | Some JNull \<Rightarrow> Inl (cannot_read (lit ''null'') (lit ''replace''))
      | Some _ \<Rightarrow> Inl (not_a_function callee (lit ''replace'')))"

text \<open>
  \<^verbatim>\<open>
  if (!data.candidates || !Array.isArray(data.candidates) || data.candidates.length === 0) {
    throw new Error('Invalid response structure from Gemini API');
  }
  const candidate = data.candidates[0];
  \<close>
\<close>

definition gemini_candidate :: "json \<Rightarrow> jserror + json option" where
  "gemini_candidate data =
     (case member (Some data) (lit ''candidates'') of
        Inl e \<Rightarrow> Inl e
      | Inr candidates \<Rightarrow>
          if \<not> truthy candidates \<or> \<not> isArray candidates \<or>
             length_of candidates = Inr (Some (JNum 0))
          then Inl (new_Error (lit ''Invalid response structure from Gemini API''))
          else first candidates)"

text \<open>
  \<^verbatim>\<open>
  if (!candidate.content || !candidate.content.parts || candidate.content.parts.length === 0) {
    throw new Error('No content in Gemini API response');
  }
  let content = candidate.content.parts[0].text;
  \<close>
\<close>

definition gemini_part_text :: "json option \<Rightarrow> jserror + json option" where
  "gemini_part_text candidate =
     (case member candidate (lit ''content'') of
        Inl e \<Rightarrow> Inl e
      | Inr c \<Rightarrow>
          if \<not> truthy c then Inl (new_Error (lit ''No content in Gemini API response''))
          else
            (case member c (lit ''parts'') of
               Inl e \<Rightarrow> Inl e
             | Inr parts \<Rightarrow>
                 if \<not> truthy parts
                 then Inl (new_Error (lit ''No content in Gemini API response''))
                 else
                   (case length_of parts of
                      Inl e \<Rightarrow> Inl e
                    | Inr n \<Rightarrow>
                        if n = Some (JNum 0)
                        then Inl (new_Error (lit ''No content in Gemini API response''))
                        else
                          (case first parts of
                             Inl e \<Rightarrow> Inl e
                           | Inr part \<Rightarrow> member part (lit ''text'')))))"

text \<open>
  \<^verbatim>\<open>
  trace.response_metadata = {
    model: data.candidates[0].content.role || 'model',
    finishReason: candidate.finishReason,
    safetyRatings: candidate.safetyRatings,
  };
  \<close>
\<close>

definition gemini_metadata :: "json option \<Rightarrow> jserror + metadata" where
  "gemini_metadata candidate =
     (case member candidate (lit ''content'') of
        Inl e \<Rightarrow> Inl e
      | Inr c \<Rightarrow>
          (case member c (lit ''role'') of
             Inl e \<Rightarrow> Inl e
           | Inr role \<Rightarrow>
               (case member candidate (lit ''finishReason'') of
                  Inl e \<Rightarrow> Inl e
                | Inr finishReason \<Rightarrow>
                    (case member candidate (lit ''safetyRatings'') of
                       Inl e \<Rightarrow> Inl e
                     | Inr safetyRatings \<Rightarrow>
                         Inr (GeminiMetadata
                               (case role of
                                  None \<Rightarrow> JStr (lit ''model'')
                                | Some r \<Rightarrow> if truthy role then r else JStr (lit ''model''))
                               finishReason safetyRatings)))))"

text \<open>
  \<open>generateWithGemini(prompt, trace)\<close>. The adapter writes to the caller's trace object,
  so the model returns the trace with the result: the text, or the error thrown. A
  response that is not \<open>ok\<close> throws \<open>Gemini API returned <status>: <body>\<close>.
\<close>

definition generateWithGemini ::
  "world \<Rightarrow> jsstring \<Rightarrow> gen_trace \<Rightarrow> (jserror + jsstring) \<times> gen_trace" where
  "generateWithGemini w prompt' trace' =
     (case fetch w prompt' of
        Inl e \<Rightarrow> (Inl e, trace')
      | Inr response \<Rightarrow>
          if \<not> ok response then
            (case body_text response of
               Inl e \<Rightarrow> (Inl e, trace')
             | Inr errorText \<Rightarrow>
                 (Inl (new_Error (lit ''Gemini API returned '' @ decimal (http_status response)
                        @ lit '': '' @ errorText)), trace'))
          else
            (case body_json response of
               Inl e \<Rightarrow> (Inl e, trace')
             | Inr data \<Rightarrow>
                 (case gemini_candidate data of
                    Inl e \<Rightarrow> (Inl e, trace')
                  | Inr candidate \<Rightarrow>
                      (case gemini_part_text candidate of
                         Inl e \<Rightarrow> (Inl e, trace')
                       | Inr part_text \<Rightarrow>
                           (case cleaned (lit ''content'') part_text of
                              Inl e \<Rightarrow> (Inl e, trace')
                            | Inr content' \<Rightarrow>
                                (case gemini_metadata candidate of
                                   Inl e \<Rightarrow> (Inl e, trace'\<lparr>trace_output := Some content'\<rparr>)
                                 | Inr m \<Rightarrow>
                                     (Inr content',
                                      trace'\<lparr>trace_output := Some content',
                                             response_metadata := Some m\<rparr>)))))))"

text \<open>
  \<^verbatim>\<open>
  const content = completion.choices?.[0]?.message?.content ?? '';
  \<close>
\<close>

definition helicone_content :: "json \<Rightarrow> jserror + json option" where
  "helicone_content completion =
     (case member (Some completion) (lit ''choices'') of
        Inl e \<Rightarrow> Inl e
      | Inr choices \<Rightarrow>
          if nullish choices then Inr (Some (JStr []))
          else
            (case first choices of
               Inl e \<Rightarrow> Inl e
             | Inr choice \<Rightarrow>
                 if nullish choice then Inr (Some (JStr []))
                 else
                   (case member choice (lit ''message'') of
                      Inl e \<Rightarrow> Inl e
                    | Inr message \<Rightarrow>
                        if nullish message then Inr (Some (JStr []))
                        else
                          (case member message (lit ''content'') of
                             Inl e \<Rightarrow> Inl e
                           | Inr c \<Rightarrow> Inr (if nullish c then Some (JStr []) else c)))))"

text \<open>
  \<^verbatim>\<open>
  trace.response_metadata = { id: completion.id, created: completion.created,
                              model: completion.model };
  \<close>
\<close>

definition helicone_metadata :: "json \<Rightarrow> jserror + metadata" where
  "helicone_metadata completion =
     (case member (Some completion) (lit ''id'') of
        Inl e \<Rightarrow> Inl e
      | Inr i \<Rightarrow>
          (case member (Some completion) (lit ''created'') of
             Inl e \<Rightarrow> Inl e
           | Inr created \<Rightarrow>
               (case member (Some completion) (lit ''model'') of
                  Inl e \<Rightarrow> Inl e
                | Inr m \<Rightarrow> Inr (HeliconeMetadata i created m))))"

text \<open>\<open>(content || '')\<close>, and the text with which V8 names this callee in the message of
  a \<open>TypeError\<close>, \<open>(content || "")\<close>.\<close>

definition or_empty :: "json option \<Rightarrow> json option" where
  "or_empty c = (if truthy c then c else Some (JStr []))"

definition or_empty_callee :: jsstring where
  "or_empty_callee = lit ''(content || '' @ [0x22, 0x22] @ lit '')''"

text \<open>
  \<open>generateWithHelicone(prompt, trace)\<close>: the client is built and
  \<open>chat.completions.create\<close> awaited (\<open>openai_create\<close>, which is the completion or what
  the client throws); then \<open>(content || '')\<close> is cleaned and the trace written.
\<close>

definition generateWithHelicone ::
  "world \<Rightarrow> jsstring \<Rightarrow> gen_trace \<Rightarrow> (jserror + jsstring) \<times> gen_trace" where
  "generateWithHelicone w prompt' trace' =
     (case openai_create w prompt' of
        Inl e \<Rightarrow> (Inl e, trace')
      | Inr completion \<Rightarrow>
          (case helicone_content completion of
             Inl e \<Rightarrow> (Inl e, trace')
           | Inr c \<Rightarrow>
               (case cleaned or_empty_callee (or_empty c) of
                  Inl e \<Rightarrow> (Inl e, trace')
                | Inr cleaned' \<Rightarrow>
                    (case helicone_metadata completion of
                       Inl e \<Rightarrow> (Inl e, trace')
                     | Inr m \<Rightarrow>
                         (Inr cleaned',
                          trace'\<lparr>response_metadata := Some m,
                                 trace_output := Some cleaned'\<rparr>)))))"

section \<open>Prompts and the mock generator\<close>

text \<open>The templates of the source, line by line; \<open>text_of\<close> joins lines with line feeds.\<close>

definition text_of :: "jsstring list \<Rightarrow> jsstring" where
  "text_of ls = join [0x0A] ls"

definition easter_egg_prompt :: jsstring where
  \<open>easter_egg_prompt = text_of
    [lit ''Generate a fun, retro TypeScript gaming Easter egg! Create an interactive Konami Code detector with:'',
     lit ''        '',
     lit ''- A TypeScript class that tracks arrow key presses'',
     lit ''- The classic sequence: up, up, down, down, left, right, left, right, B, A'',
     lit ''- A celebration function that triggers when completed'',
     lit ''- Retro gaming ASCII art comments'',
     lit ''- At least 3 different "cheat code" effects (god mode, 30 lives, etc.)'',
     lit ''- Make it nostalgic and fun for developers!'',
     [],
     lit ''Return ONLY the TypeScript code, no markdown formatting or explanations.'']\<close>

definition normal_prompt_head :: jsstring where
  \<open>normal_prompt_head = text_of
    [lit ''Generate a complete, executable TypeScript module for an educational lesson based on this outline: "'']\<close>

definition normal_prompt_requirements :: jsstring where
  \<open>normal_prompt_requirements = text_of
    [lit ''"'',
     [],
     lit ''Requirements:'',
     lit ''- Create an interactive quiz or educational content'',
     lit ''- Use TypeScript with proper types'',
     lit ''- Include functions that can be called/executed'',
     lit ''- Make it educational and engaging'',
     lit ''- Add comments explaining the code'',
     lit ''- Include at least 3-5 questions or learning points'',
     [],
     lit ''Return ONLY the TypeScript code, no markdown formatting or explanations.'']\<close>

definition normal_prompt :: "jsstring \<Rightarrow> jsstring" where
  "normal_prompt outline = normal_prompt_head @ outline @ normal_prompt_requirements"

definition konami_lesson :: jsstring where
  \<open>konami_lesson = text_of
    [lit ''// '' @ [0xD83C, 0xDFAE] @ lit '' KONAMI CODE EASTER EGG '' @ [0xD83C, 0xDFAE],
     lit ''// '' @ [0x2191] @ lit '' '' @ [0x2191] @ lit '' '' @ [0x2193] @ lit '' '' @ [0x2193] @ lit '' '' @ [0x2190] @ lit '' '' @ [0x2192] @ lit '' '' @ [0x2190] @ lit '' '' @ [0x2192] @ lit '' B A'',
     [],
     lit ''type KeyCode = \'ArrowUp\' | \'ArrowDown\' | \'ArrowLeft\' | \'ArrowRight\' | \'KeyB\' | \'KeyA\';'',
     [],
     lit ''class KonamiCodeDetector {'',
     lit ''  private sequence: KeyCode[] = ['',
     lit ''    \'ArrowUp\', \'ArrowUp\', \'ArrowDown\', \'ArrowDown\','',
     lit ''    \'ArrowLeft\', \'ArrowRight\', \'ArrowLeft\', \'ArrowRight\','',
     lit ''    \'KeyB\', \'KeyA'' @ [0x0027],
     lit ''  ];'',
     lit ''  private currentIndex: number = 0;'',
     [],
     lit ''  constructor() {'',
     lit ''    this.setupListener();'',
     lit ''  }'',
     [],
     lit ''  private setupListener(): void {'',
     lit ''    document.addEventListener(\'keydown\', (e: KeyboardEvent) => {'',
     lit ''      if (e.code === this.sequence[this.currentIndex]) {'',
     lit ''        this.currentIndex++;'',
     lit ''        if (this.currentIndex === this.sequence.length) {'',
     lit ''          this.activate();'',
     lit ''          this.currentIndex = 0;'',
     lit ''        }'',
     lit ''      } else {'',
     lit ''        this.currentIndex = 0;'',
     lit ''      }'',
     lit ''    });'',
     lit ''  }'',
     [],
     lit ''  private activate(): void {'',
     lit ''    console.log('' @ [0x0027, 0xD83C, 0xDFAE] @ lit '' KONAMI CODE ACTIVATED! '' @ [0xD83C, 0xDFAE, 0x0027] @ lit '');'',
     lit ''    this.godMode();'',
     lit ''    this.extraLives();'',
     lit ''    this.unlockSecrets();'',
     lit ''  }'',
     [],
     lit ''  private godMode(): void {'',
     lit ''    console.log('' @ [0x0027, 0x26A1] @ lit '' GOD MODE ENABLED '' @ [0x26A1, 0x0027] @ lit '');'',
     lit ''    document.body.style.filter = \'hue-rotate(180deg)\';'',
     lit ''  }'',
     [],
     lit ''  private extraLives(): void {'',
     lit ''    console.log('' @ [0x0027, 0x2764, 0xFE0F] @ lit '' +30 LIVES! '' @ [0x2764, 0xFE0F, 0x0027] @ lit '');'',
     lit ''  }'',
     [],
     lit ''  private unlockSecrets(): void {'',
     lit ''    console.log('' @ [0x0027, 0xD83D, 0xDD13] @ lit '' ALL SECRETS UNLOCKED! '' @ [0xD83D, 0xDD13, 0x0027] @ lit '');'',
     lit ''  }'',
     lit ''}'',
     [],
     lit ''// Initialize the detector'',
     lit ''const konami = new KonamiCodeDetector();'',
     lit ''console.log(\'Try the Konami Code: '' @ [0x2191] @ lit '' '' @ [0x2191] @ lit '' '' @ [0x2193] @ lit '' '' @ [0x2193] @ lit '' '' @ [0x2190] @ lit '' '' @ [0x2192] @ lit '' '' @ [0x2190] @ lit '' '' @ [0x2192] @ lit '' B A\');'']\<close>

definition quiz_lesson_head :: jsstring where
  \<open>quiz_lesson_head = text_of
    [lit ''// TypeScript Educational Module'',
     lit ''// Topic: '']\<close>

definition quiz_lesson_body :: jsstring where
  \<open>quiz_lesson_body = text_of
    [[],
     [],
     lit ''interface Question {'',
     lit ''  id: number;'',
     lit ''  question: string;'',
     lit ''  options: string[];'',
     lit ''  correctAnswer: number;'',
     lit ''  explanation: string;'',
     lit ''}'',
     [],
     lit ''class Quiz {'',
     lit ''  private questions: Question[] = ['',
     lit ''    {'',
     lit ''      id: 1,'',
     lit ''      question: "What is TypeScript?",'',
     lit ''      options: ['',
     lit ''        "A JavaScript library",'',
     lit ''        "A superset of JavaScript",'',
     lit ''        "A backend framework",'',
     lit ''        "A database"'',
     lit ''      ],'',
     lit ''      correctAnswer: 1,'',
     lit ''      explanation: "TypeScript is a superset of JavaScript that adds static typing."'',
     lit ''    },'',
     lit ''    {'',
     lit ''      id: 2,'',
     lit ''      question: "What does the \'interface\' keyword do?",'',
     lit ''      options: ['',
     lit ''        "Creates a class",'',
     lit ''        "Defines a type structure",'',
     lit ''        "Imports a module",'',
     lit ''        "Exports a function"'',
     lit ''      ],'',
     lit ''      correctAnswer: 1,'',
     lit ''      explanation: "Interfaces define the structure of objects in TypeScript."'',
     lit ''    },'',
     lit ''    {'',
     lit ''      id: 3,'',
     lit ''      question: "What is the purpose of generics?",'',
     lit ''      options: ['',
     lit ''        "To make code faster",'',
     lit ''        "To create reusable components",'',
     lit ''        "To compress code",'',
     lit ''        "To add colors"'',
     lit ''      ],'',
     lit ''      correctAnswer: 1,'',
     lit ''      explanation: "Generics allow creating reusable components that work with multiple types."'',
     lit ''    }'',
     lit ''  ];'',
     [],
     lit ''  checkAnswer(questionId: number, answer: number): boolean {'',
     lit ''    const question = this.questions.find(q => q.id === questionId);'',
     lit ''    return question ? question.correctAnswer === answer : false;'',
     lit ''  }'',
     [],
     lit ''  getExplanation(questionId: number): string {'',
     lit ''    const question = this.questions.find(q => q.id === questionId);'',
     lit ''    return question ? question.explanation : "Question not found";'',
     lit ''  }'',
     [],
     lit ''  getAllQuestions(): Question[] {'',
     lit ''    return this.questions;'',
     lit ''  }'',
     lit ''}'',
     [],
     lit ''// Example usage:'',
     lit ''const quiz = new Quiz();'',
     lit ''console.log("Quiz loaded with", quiz.getAllQuestions().length, "questions");'',
     [],
     lit ''export { Quiz, Question };'']\<close>

text \<open>
  \<open>generateMockLesson(outline, isEasterEgg)\<close>: the Konami lesson, or the quiz lesson with
  the outline in its header comment.
\<close>

definition generateMockLesson :: "jsstring \<Rightarrow> bool \<Rightarrow> jsstring" where
  "generateMockLesson outline isEasterEgg =
     (if isEasterEgg then konami_lesson
      else quiz_lesson_head @ outline @ quiz_lesson_body)"

section \<open>The orchestrator\<close>

text \<open>\<open>!!process.env.HELICONE_API_KEY\<close> and \<open>!!process.env.GEMINI_API_KEY\<close>: the variable is
  set and not empty.\<close>

definition useHelicone :: "world \<Rightarrow> bool" where
  "useHelicone w = (case HELICONE_API_KEY w of None \<Rightarrow> False | Some k \<Rightarrow> k \<noteq> [])"

definition useGemini :: "world \<Rightarrow> bool" where
  "useGemini w = (case GEMINI_API_KEY w of None \<Rightarrow> False | Some k \<Rightarrow> k \<noteq> [])"

definition isEasterEgg :: "world \<Rightarrow> jsstring \<Rightarrow> bool" where
  "isEasterEgg w outline \<longleftrightarrow>
     js_includes (toLowerCase w outline) (lit ''konami'') \<or>
     js_includes (toLowerCase w outline) (lit ''up up down down'')"

text \<open>The prompt that is handed to the adapters (the local \<open>prompt\<close>).\<close>

definition build_prompt :: "world \<Rightarrow> jsstring \<Rightarrow> jsstring" where
  "build_prompt w outline =
     (if isEasterEgg w outline then easter_egg_prompt else normal_prompt outline)"

text \<open>
  \<^verbatim>\<open>
  const trace: any = {
    prompt: `Generate a TypeScript educational module for: ${outline}`,
    timestamp: new Date().toISOString(),
    provider: undefined,
    model: undefined,
  };
  \<close>
\<close>

definition initial_trace :: "world \<Rightarrow> jsstring \<Rightarrow> gen_trace" where
  "initial_trace w outline =
     \<lparr>prompt = lit ''Generate a TypeScript educational module for: '' @ outline,
      timestamp = clock_trace w,
      provider = None, model = None, trace_output = None, mock = None,
      fallback_reason = None, response_metadata = None\<rparr>"

datatype adapter = Helicone | Gemini

text \<open>
  The generation step of \<open>generateLessonContent\<close> (from the trace to the end of the
  \<open>if (useHelicone) ... else if (useGemini) ... else ...\<close> chain): the final content, the
  trace, and the log of the adapter calls made, each with the prompt it was given. Every
  call is awaited before the next statement runs.
\<close>

definition generate_content ::
  "world \<Rightarrow> jsstring \<Rightarrow> jsstring \<times> gen_trace \<times> (adapter \<times> jsstring) list" where
  "generate_content w outline =
     (let trace0 = initial_trace w outline;
          egg = isEasterEgg w outline;
          prompt' = build_prompt w outline
      in
        if useHelicone w then
          (case generateWithHelicone w prompt'
                  (trace0\<lparr>provider := Some (lit ''helicone''),
                          model := Some (lit ''gpt-4o-mini'')\<rparr>) of
             (Inr content', trace1) \<Rightarrow> (content', trace1, [(Helicone, prompt')])
           | (Inl error1, trace1) \<Rightarrow>
               if useGemini w then
                 (case generateWithGemini w prompt'
                         (trace1\<lparr>provider := Some (lit ''gemini''),
                                 model := Some (lit ''gemini-2.5-flash'')\<rparr>) of
                    (Inr content', trace2) \<Rightarrow>
                      (content', trace2, [(Helicone, prompt'), (Gemini, prompt')])
                  | (Inl error2, trace2) \<Rightarrow>
                      (let content' = generateMockLesson outline egg
                       in (content',
                           trace2\<lparr>trace_output := Some content', mock := Some True,
                                  fallback_reason := Some (describe error2)\<rparr>,
                           [(Helicone, prompt'), (Gemini, prompt')])))
               else
                 (let content' = generateMockLesson outline egg
                  in (content',
                      trace1\<lparr>trace_output := Some content', mock := Some True,
                             fallback_reason := Some (describe error1)\<rparr>,
                      [(Helicone, prompt')])))
        else if useGemini w then
          (case generateWithGemini w prompt'
                  (trace0\<lparr>provider := Some (lit ''gemini''),
                          model := Some (lit ''gemini-2.5-flash'')\<rparr>) of
             (Inr content', trace1) \<Rightarrow> (content', trace1, [(Gemini, prompt')])
           | (Inl error1, trace1) \<Rightarrow>
               (let content' = generateMockLesson outline egg
                in (content',
                    trace1\<lparr>trace_output := Some content', mock := Some True,
                           fallback_reason := Some (describe error1)\<rparr>,
                    [(Gemini, prompt')])))
        else
          (let content' = generateMockLesson outline egg
           in (content', trace0\<lparr>trace_output := Some content', mock := Some True\<rparr>, [])))"

text \<open>What a run leaves behind: the table, the updates it sent to the store in order
  (accepted or not), and the adapter calls.\<close>

record effects =
  rows :: store
  updates :: "(jsstring \<times> patch) list"
  calls :: "(adapter \<times> jsstring) list"

text \<open>
  The \<open>try\<close> block: generate, then update the row to \<open>Generated\<close>; an error in the reply
  is thrown (\<open>if (updateError) throw updateError\<close>), the error object itself.
\<close>

definition try_block :: "world \<Rightarrow> store \<Rightarrow> jsstring \<Rightarrow> jsstring \<Rightarrow> (jserror + unit) \<times> effects" where
  "try_block w st lessonId outline =
     (case generate_content w outline of
        (content', trace', made) \<Rightarrow>
          (let p = \<lparr>set_content = Some content', set_status = Generated,
                    set_trace = Trace trace'\<rparr>
           in case update_row w lessonId p st of
                (updateError, st') \<Rightarrow>
                  (case updateError of
                     Some e \<Rightarrow> Inl (StoreError e)
                   | None \<Rightarrow> Inr (),
                   \<lparr>rows = st', updates = [(lessonId, p)], calls = made\<rparr>)))"

text \<open>
  The \<open>catch\<close> block: the row is updated to \<open>Failed\<close> with the trace
  \<open>{error, stack, timestamp}\<close>; the reply of this update is not looked at.
\<close>

definition catch_block :: "world \<Rightarrow> jsstring \<Rightarrow> jserror \<Rightarrow> effects \<Rightarrow> (jserror + unit) \<times> effects" where
  "catch_block w lessonId e fx =
     (let p = \<lparr>set_content = None, set_status = Failed,
               set_trace = Failure (describe e) (stack_of e) (clock_catch w)\<rparr>
      in case update_row w lessonId p (rows fx) of
           (ignored, st') \<Rightarrow>
             (Inr (), fx\<lparr>rows := st', updates := updates fx @ [(lessonId, p)]\<rparr>))"

text \<open>\<open>generateLessonContent(lessonId, outline)\<close>: \<open>Inl\<close> would be an exception that leaves
  the function.\<close>

definition generateLessonContent ::
  "world \<Rightarrow> store \<Rightarrow> jsstring \<Rightarrow> jsstring \<Rightarrow> (jserror + unit) \<times> effects" where
  "generateLessonContent w st lessonId outline =
     (case try_block w st lessonId outline of
        (Inl e, fx) \<Rightarrow> catch_block w lessonId e fx
      | (Inr u, fx) \<Rightarrow> (Inr u, fx))"

section \<open>The create endpoint\<close>

datatype reply_body =
    ErrorBody jsstring
  | LessonCreated jsstring jsstring

record http_reply =
  code :: nat
  body :: reply_body

text \<open>The outcome of a request: the HTTP reply, the table, the inserts sent to the store,
  and the orchestrator call that was started and not awaited, if any.\<close>

record post_result =
  reply :: http_reply
  table :: store
  inserts :: "new_lesson list"
  dispatched :: "(jsstring \<times> jsstring) option"

definition internal_server_error :: "store \<Rightarrow> post_result" where
  "internal_server_error st =
     \<lparr>reply = \<lparr>code = 500, body = ErrorBody (lit ''Internal server error'')\<rparr>,
      table = st, inserts = [], dispatched = None\<rparr>"

text \<open>
  \<open>POST(request)\<close>. The argument \<open>parsed\<close> is what \<open>await request.json()\<close> gives: the
  parsed body, or the error of a body that is not JSON. Destructuring \<open>{ outline }\<close>
  throws on \<open>null\<close>; a truthy outline that is not a string throws in \<open>extractTitle\<close>
  (it has no \<open>split\<close>), before the insert is sent. Every exception is caught by the
  handler and answered with 500.
\<close>

definition POST :: "world \<Rightarrow> store \<Rightarrow> jserror + json \<Rightarrow> post_result" where
  "POST w st parsed =
     (case parsed of
        Inl e \<Rightarrow> internal_server_error st
      | Inr request_body \<Rightarrow>
          (case member (Some request_body) (lit ''outline'') of
             Inl e \<Rightarrow> internal_server_error st
           | Inr outline \<Rightarrow>
               if \<not> truthy outline then
                 \<lparr>reply = \<lparr>code = 400, body = ErrorBody (lit ''Outline is required'')\<rparr>,
                  table = st, inserts = [], dispatched = None\<rparr>
               else
                 (case outline of
                    Some (JStr s) \<Rightarrow>
                      (let columns = \<lparr>new_outline = s, new_title = extractTitle s,
                                       new_status = Generating\<rparr>
                       in case insert_row w columns st of
                            (Inl insertError, st') \<Rightarrow>
                              \<lparr>reply = \<lparr>code = 500,
                                         body = ErrorBody (lit ''Failed to create lesson'')\<rparr>,
                               table = st', inserts = [columns], dispatched = None\<rparr>
                          | (Inr lesson, st') \<Rightarrow>
                              \<lparr>reply = \<lparr>code = 200,
                                         body = LessonCreated (lesson_id lesson)
                                                  (lit ''Generating'')\<rparr>,
                               table = st', inserts = [columns],
                               dispatched = Some (lesson_id lesson, s)\<rparr>)
                  | _ \<Rightarrow> internal_server_error st)))"

text \<open>A request from its arrival to the end of the run it started.\<close>

definition run_request :: "world \<Rightarrow> store \<Rightarrow> jserror + json \<Rightarrow> post_result \<times> effects option" where
  "run_request w st parsed =
     (let r = POST w st parsed
      in case dispatched r of
           None \<Rightarrow> (r, None)
         | Some (lessonId, outline) \<Rightarrow>
             (r, Some (snd (generateLessonContent w (table r) lessonId outline))))"

section \<open>Notions used by the properties\<close>

text \<open>What each adapter returns or throws when the orchestrator calls it for an outline.
  The result of an adapter does not depend on the trace it is handed.\<close>

definition helicone_attempt :: "world \<Rightarrow> jsstring \<Rightarrow> jserror + jsstring" where
  "helicone_attempt w outline =
     fst (generateWithHelicone w (build_prompt w outline) (initial_trace w outline))"

definition gemini_attempt :: "world \<Rightarrow> jsstring \<Rightarrow> jserror + jsstring" where
  "gemini_attempt w outline =
     fst (generateWithGemini w (build_prompt w outline) (initial_trace w outline))"



text \<open>The update that ends the \<open>try\<close> block.\<close>

definition generated_patch :: "world \<Rightarrow> jsstring \<Rightarrow> patch" where
  "generated_patch w outline =
     (case generate_content w outline of
        (content', trace', made) \<Rightarrow>
          \<lparr>set_content = Some content', set_status = Generated, set_trace = Trace trace'\<rparr>)"

text \<open>The invariant of a lesson record as the specification states it.\<close>

definition record_invariant :: "lesson \<Rightarrow> bool" where
  "record_invariant l \<longleftrightarrow>
     (status l = Generated \<longrightarrow>
        (case content l of None \<Rightarrow> False | Some c \<Rightarrow> c \<noteq> []) \<and> trace l \<noteq> None) \<and>
     (status l = Generating \<longrightarrow> content l = None) \<and>
     (status l = Failed \<longrightarrow> content l = None)"

text \<open>The invariant that the code keeps: the content of a \<open>Generated\<close> record is present,
  and it is non-empty where the trace says that the mock generator produced it.\<close>

definition written_invariant :: "lesson \<Rightarrow> bool" where
  "written_invariant l \<longleftrightarrow>
     (status l = Generated \<longrightarrow>
        content l \<noteq> None \<and>
        (case trace l of
           Some (Trace t) \<Rightarrow> mock t = Some True \<longrightarrow> content l \<noteq> Some []
         | _ \<Rightarrow> False)) \<and>
     (status l = Generating \<longrightarrow> content l = None) \<and>
     (status l = Failed \<longrightarrow> content l = None)"

text \<open>
  Concrete environments for the examples. \<open>ascii_lower\<close> is \<open>toLowerCase\<close> on ASCII text.
  In \<open>offline_world\<close> no credential is set, both providers are unreachable (the client
  and \<open>fetch\<close> throw) and the store accepts every request. \<open>gemini_response\<close> is a
  Gemini reply whose first candidate carries one text part, \<open>completion_with\<close> a chat
  completion whose first choice has the given content.
\<close>

definition ascii_lower :: "jsstring \<Rightarrow> jsstring" where
  "ascii_lower s = map (\<lambda>c. if 0x41 \<le> c \<and> c \<le> 0x5A then c + 0x20 else c) s"

definition offline_world :: world where
  "offline_world =
     \<lparr>HELICONE_API_KEY = None,
      GEMINI_API_KEY = None,
      toLowerCase = ascii_lower,
      openai_create = (\<lambda>p. Inl (Error (lit ''Connection error.'') None)),
      fetch = (\<lambda>p. Inl (Error (lit ''fetch failed'') None)),
      clock_trace = lit ''2025-01-01T00:00:00.000Z'',
      clock_catch = lit ''2025-01-01T00:00:09.000Z'',
      insert_reply = (\<lambda>c. Inr (lit ''lesson-1'', lit ''2025-01-01T00:00:00.000Z'')),
      update_reply = (\<lambda>i p. None)\<rparr>"

definition gemini_response :: "jsstring \<Rightarrow> response" where
  "gemini_response s =
     \<lparr>ok = True, http_status = 200, body_text = Inr [],
      body_json = Inr (JObj [(lit ''candidates'',
        JArr [JObj [(lit ''content'',
                      JObj [(lit ''parts'', JArr [JObj [(lit ''text'', JStr s)]]),
                            (lit ''role'', JStr (lit ''model''))]),
                    (lit ''finishReason'', JStr (lit ''STOP''))]])])\<rparr>"

definition completion_with :: "json \<Rightarrow> json" where
  "completion_with c =
     JObj [(lit ''id'', JStr (lit ''chatcmpl-1'')),
           (lit ''model'', JStr (lit ''gpt-4o-mini'')),
           (lit ''choices'',
             JArr [JObj [(lit ''message'',
                          JObj [(lit ''role'', JStr (lit ''assistant'')),
                                (lit ''content'', c)])]])]"

text \<open>In \<open>both_down_world\<close> both credentials are set and both providers are unreachable;
  in \<open>rejecting_world\<close> the store, in addition, fails on the update to \<open>Generated\<close>, and
  in \<open>store_blip_world\<close> it does so with no credential set. \<open>fetch_failed\<close> is the error
  object of the store client for a request that did not reach the store.\<close>

definition fetch_failed :: store_error where
  "fetch_failed =
     \<lparr>error_message = lit ''TypeError: fetch failed'', error_details = [],
      error_hint = [], error_code = []\<rparr>"

definition both_down_world :: world where
  "both_down_world =
     offline_world\<lparr>HELICONE_API_KEY := Some (lit ''sk-helicone''),
                   GEMINI_API_KEY := Some (lit ''AIza'')\<rparr>"

definition rejecting_world :: world where
  "rejecting_world =
     both_down_world\<lparr>update_reply :=
       (\<lambda>i p. if set_status p = Generated then Some fetch_failed else None)\<rparr>"

definition store_blip_world :: world where
  "store_blip_world =
     offline_world\<lparr>update_reply :=
       (\<lambda>i p. if set_status p = Generated then Some fetch_failed else None)\<rparr>"


definition gemini_up_world :: world where
  "gemini_up_world =
     offline_world\<lparr>GEMINI_API_KEY := Some (lit ''AIza''),
                   fetch := (\<lambda>p. Inr (gemini_response (lit ''export const x = 1;'')))\<rparr>"

text \<open>Environments in which a provider answers without text: \<open>helicone_null_world\<close> (the
  first choice has content \<open>null\<close>), \<open>no_choices_world\<close> (the list of choices is empty),
  \<open>gemini_blank_world\<close> (the first part has the empty text) and
  \<open>empty_candidates_world\<close> (the list of candidates is empty).\<close>

definition helicone_null_world :: world where
  "helicone_null_world =
     offline_world\<lparr>HELICONE_API_KEY := Some (lit ''sk-helicone''),
                   openai_create := (\<lambda>p. Inr (completion_with JNull))\<rparr>"

definition gemini_blank_world :: world where
  "gemini_blank_world =
     offline_world\<lparr>GEMINI_API_KEY := Some (lit ''AIza''),
                   fetch := (\<lambda>p. Inr (gemini_response []))\<rparr>"

definition no_choices_world :: world where
  "no_choices_world =
     offline_world\<lparr>HELICONE_API_KEY := Some (lit ''sk-helicone''),
                   openai_create := (\<lambda>p. Inr (JObj [(lit ''id'', JStr (lit ''chatcmpl-1'')),
                                                   (lit ''choices'', JArr [])]))\<rparr>"

definition empty_candidates_world :: world where
  "empty_candidates_world =
     offline_world\<lparr>GEMINI_API_KEY := Some (lit ''AIza''),
                   fetch := (\<lambda>p. Inr \<lparr>ok = True, http_status = 200, body_text = Inr [],
                                       body_json = Inr (JObj [(lit ''candidates'', JArr [])])\<rparr>)\<rparr>"

section \<open>Properties of the title\<close>



lemma length_lit: "length (lit s) = length s"
  by (simp add: lit_def)



text \<open>
  Claim C10. For every outline the title has at most 53 code units: exactly 53 (50 of the
  six-field prefix and the three of the marker \<open>...\<close>) when the prefix is longer than
  50, and the length of the prefix, which is then at most 50, otherwise.
\<close>

theorem extractTitle_length:
  "length (extractTitle outline) \<le> 53 \<and>
   length (extractTitle outline) =
     (if 50 < length (first_six outline) then 50 + 3 else length (first_six outline))"
  by (simp add: extractTitle_def Let_def length_lit)

theorem extractTitle_length_witness:
  "length (extractTitle
     (lit ''Introduction to asynchronous programming with JavaScript promises'')) = 53"
  using extractTitle_length
    [of "lit ''Introduction to asynchronous programming with JavaScript promises''"]
  by (simp add: first_six_def lit_def space_def)




section \<open>Properties of the adapters and of the generation step\<close>

lemma helicone_fst:
  "fst (generateWithHelicone w (build_prompt w outline) t) = helicone_attempt w outline"
  by (simp add: helicone_attempt_def generateWithHelicone_def split: sum.split)

lemma gemini_fst:
  "fst (generateWithGemini w (build_prompt w outline) t) = gemini_attempt w outline"
  by (simp add: gemini_attempt_def generateWithGemini_def split: sum.split)

lemma helicone_snd_failed:
  "fst (generateWithHelicone w p t) = Inl e \<Longrightarrow> snd (generateWithHelicone w p t) = t"
  by (auto simp: generateWithHelicone_def split: sum.splits)

lemma helicone_frame:
  "prompt (snd (generateWithHelicone w p t)) = prompt t"
  "timestamp (snd (generateWithHelicone w p t)) = timestamp t"
  "provider (snd (generateWithHelicone w p t)) = provider t"
  "model (snd (generateWithHelicone w p t)) = model t"
  "mock (snd (generateWithHelicone w p t)) = mock t"
  "fallback_reason (snd (generateWithHelicone w p t)) = fallback_reason t"
  by (simp_all add: generateWithHelicone_def split: sum.split)

lemma gemini_frame:
  "prompt (snd (generateWithGemini w p t)) = prompt t"
  "timestamp (snd (generateWithGemini w p t)) = timestamp t"
  "provider (snd (generateWithGemini w p t)) = provider t"
  "model (snd (generateWithGemini w p t)) = model t"
  "mock (snd (generateWithGemini w p t)) = mock t"
  "fallback_reason (snd (generateWithGemini w p t)) = fallback_reason t"
  by (simp_all add: generateWithGemini_def split: sum.split)

text \<open>The generation step, by the outcome of each adapter call.\<close>

lemma generate_content_alt:
  "generate_content w outline =
     (let t0 = initial_trace w outline;
          m = generateMockLesson outline (isEasterEgg w outline);
          p = build_prompt w outline;
          h = snd (generateWithHelicone w p
                (t0\<lparr>provider := Some (lit ''helicone''), model := Some (lit ''gpt-4o-mini'')\<rparr>));
          g = snd (generateWithGemini w p
                (t0\<lparr>provider := Some (lit ''gemini''),
                    model := Some (lit ''gemini-2.5-flash'')\<rparr>))
      in if useHelicone w then
           (case helicone_attempt w outline of
              Inr c \<Rightarrow> (c, h, [(Helicone, p)])
            | Inl e1 \<Rightarrow>
                if useGemini w then
                  (case gemini_attempt w outline of
                     Inr c \<Rightarrow> (c, g, [(Helicone, p), (Gemini, p)])
                   | Inl e2 \<Rightarrow>
                       (m, g\<lparr>trace_output := Some m, mock := Some True,
                              fallback_reason := Some (describe e2)\<rparr>,
                        [(Helicone, p), (Gemini, p)]))
                else (m, h\<lparr>trace_output := Some m, mock := Some True,
                              fallback_reason := Some (describe e1)\<rparr>,
                      [(Helicone, p)]))
         else if useGemini w then
           (case gemini_attempt w outline of
              Inr c \<Rightarrow> (c, g, [(Gemini, p)])
            | Inl e1 \<Rightarrow>
                (m, g\<lparr>trace_output := Some m, mock := Some True,
                       fallback_reason := Some (describe e1)\<rparr>,
                 [(Gemini, p)]))
         else (m, t0\<lparr>trace_output := Some m, mock := Some True\<rparr>, []))"
proof -
  let ?p = "build_prompt w outline"
  let ?th = "(initial_trace w outline)\<lparr>provider := Some (lit ''helicone''),
      model := Some (lit ''gpt-4o-mini'')\<rparr>"
  let ?tg = "(initial_trace w outline)\<lparr>provider := Some (lit ''gemini''),
      model := Some (lit ''gemini-2.5-flash'')\<rparr>"
  obtain rh th' where H: "generateWithHelicone w ?p ?th = (rh, th')"
    by (cases "generateWithHelicone w ?p ?th")
  obtain rg tg' where G: "generateWithGemini w ?p ?tg = (rg, tg')"
    by (cases "generateWithGemini w ?p ?tg")
  have rh: "helicone_attempt w outline = rh"
    using helicone_fst [of w outline ?th] H by simp
  have rg: "gemini_attempt w outline = rg"
    using gemini_fst [of w outline ?tg] G by simp
  show ?thesis
  proof (cases rh)
    case (Inl e)
    with helicone_snd_failed [of w ?p ?th e] H have "th' = ?th"
      by simp
    with Inl H G rh rg show ?thesis
      by (cases rg) (simp_all add: generate_content_def Let_def)
  next
    case (Inr c)
    with H G rh rg show ?thesis
      by (cases rg) (simp_all add: generate_content_def Let_def)
  qed
qed

lemma generated_patch_status: "set_status (generated_patch w outline) = Generated"
  by (simp add: generated_patch_def split: prod.split)

lemma both_down_keys: "useHelicone both_down_world" "useGemini both_down_world"
  by (simp_all add: both_down_world_def offline_world_def useHelicone_def useGemini_def lit_def)

lemma both_down_attempts:
  "helicone_attempt both_down_world outline = Inl (Error (lit ''Connection error.'') None)"
  "gemini_attempt both_down_world outline = Inl (Error (lit ''fetch failed'') None)"
  by (simp_all add: both_down_world_def offline_world_def helicone_attempt_def
      gemini_attempt_def generateWithHelicone_def generateWithGemini_def)

lemma rejecting_keys: "useHelicone rejecting_world" "useGemini rejecting_world"
  by (simp_all add: rejecting_world_def both_down_world_def offline_world_def
      useHelicone_def useGemini_def lit_def)

lemma rejecting_attempts:
  "helicone_attempt rejecting_world outline = Inl (Error (lit ''Connection error.'') None)"
  "gemini_attempt rejecting_world outline = Inl (Error (lit ''fetch failed'') None)"
  by (simp_all add: rejecting_world_def both_down_world_def offline_world_def
      helicone_attempt_def gemini_attempt_def generateWithHelicone_def generateWithGemini_def)

lemma rejecting_update:
  "update_reply rejecting_world i p = (if set_status p = Generated then Some fetch_failed else None)"
  "clock_catch rejecting_world = lit ''2025-01-01T00:00:09.000Z''"
  by (simp_all add: rejecting_world_def both_down_world_def offline_world_def)

section \<open>Properties of the orchestrator\<close>

text \<open>
  Claim C1. The decision policy is a strict priority chain. With \<open>p\<close> the prompt and
  \<open>m\<close> the output of the mock generator: if the Helicone credential is set, the Helicone
  adapter is called first and its text is the content; if it throws and the Gemini
  credential is set, the Gemini adapter is called next, and its text is the content or,
  if it throws too, the mock output is; if Helicone throws and no Gemini credential is
  set, the mock output is the content. With only the Gemini credential, the Gemini
  adapter is called and the mock output replaces it on failure. With no credential no
  adapter is called and the mock output is the content. The calls are made one after the
  other (the log is a sequence), at most two of them, no adapter twice, and the mock
  generator is used only after the last call.
\<close>

theorem decision_policy:
  assumes "generate_content w outline = (content', trace', made)"
  shows "(let p = build_prompt w outline;
         m = generateMockLesson outline (isEasterEgg w outline)
     in (useHelicone w \<longrightarrow>
           (\<forall>c. helicone_attempt w outline = Inr c \<longrightarrow>
                  made = [(Helicone, p)] \<and> content' = c) \<and>
           (\<forall>e. helicone_attempt w outline = Inl e \<longrightarrow>
              (useGemini w \<longrightarrow>
                 (\<forall>c. gemini_attempt w outline = Inr c \<longrightarrow>
                        made = [(Helicone, p), (Gemini, p)] \<and> content' = c) \<and>
                 (\<forall>e2. gemini_attempt w outline = Inl e2 \<longrightarrow>
                        made = [(Helicone, p), (Gemini, p)] \<and> content' = m)) \<and>
              (\<not> useGemini w \<longrightarrow> made = [(Helicone, p)] \<and> content' = m))) \<and>
        (\<not> useHelicone w \<and> useGemini w \<longrightarrow>
           (\<forall>c. gemini_attempt w outline = Inr c \<longrightarrow> made = [(Gemini, p)] \<and> content' = c) \<and>
           (\<forall>e. gemini_attempt w outline = Inl e \<longrightarrow> made = [(Gemini, p)] \<and> content' = m)) \<and>
        (\<not> useHelicone w \<and> \<not> useGemini w \<longrightarrow> made = [] \<and> content' = m) \<and>
        length made \<le> 2 \<and> distinct (map fst made))"
  using assms
  by (auto simp: generate_content_alt Let_def split: sum.splits if_splits)

theorem decision_policy_witness:
  "useHelicone both_down_world \<and> useGemini both_down_world \<and>
   helicone_attempt both_down_world (lit ''Loops'') =
     Inl (Error (lit ''Connection error.'') None) \<and>
   gemini_attempt both_down_world (lit ''Loops'') = Inl (Error (lit ''fetch failed'') None) \<and>
   snd (snd (generate_content both_down_world (lit ''Loops''))) =
     [(Helicone, build_prompt both_down_world (lit ''Loops'')),
      (Gemini, build_prompt both_down_world (lit ''Loops''))] \<and>
   fst (generate_content both_down_world (lit ''Loops'')) =
     generateMockLesson (lit ''Loops'') (isEasterEgg both_down_world (lit ''Loops''))"
  using decision_policy [of both_down_world "lit ''Loops''"
      "fst (generate_content both_down_world (lit ''Loops''))"
      "fst (snd (generate_content both_down_world (lit ''Loops'')))"
      "snd (snd (generate_content both_down_world (lit ''Loops'')))"]
  by (simp add: both_down_keys both_down_attempts Let_def)

text \<open>
  What the orchestrator does when the store answers the update to \<open>Generated\<close> with an
  error: it returns normally, having sent a second update, to \<open>Failed\<close>; where the store
  accepts that one, the row ends with the status \<open>Failed\<close>, its content untouched, and the
  trace \<open>{error, stack, timestamp}\<close>. The error that is thrown is the plain object of the
  store client, so \<open>error\<close> is \<open>String(error)\<close>, which is \<open>[object Object]\<close>, and \<open>stack\<close> is
  \<open>undefined\<close>.
\<close>

lemma store_failure_marks_row_failed:
  assumes "generateLessonContent w st lessonId outline = (result, fx)"
    and "update_reply w lessonId (generated_patch w outline) = Some e"
  shows "result = Inr ()"
    and "updates fx =
       [(lessonId, generated_patch w outline),
        (lessonId, \<lparr>set_content = None, set_status = Failed,
                    set_trace = Failure (lit ''[object Object]'') None (clock_catch w)\<rparr>)]"
    and "st lessonId = Some row \<Longrightarrow>
         update_reply w lessonId
           \<lparr>set_content = None, set_status = Failed,
            set_trace = Failure (lit ''[object Object]'') None (clock_catch w)\<rparr> = None \<Longrightarrow>
         rows fx lessonId =
           Some (row\<lparr>status := Failed,
                      trace := Some (Failure (lit ''[object Object]'') None (clock_catch w))\<rparr>)"
  using assms
  by (auto simp: generateLessonContent_def try_block_def catch_block_def update_row_def
      generated_patch_def apply_patch_def Let_def split: prod.splits option.splits)

lemma store_blip_replies:
  "insert_reply store_blip_world =
     (\<lambda>c. Inr (lit ''lesson-1'', lit ''2025-01-01T00:00:00.000Z''))"
  "update_reply store_blip_world i p = (if set_status p = Generated then Some fetch_failed else None)"
  "clock_catch store_blip_world = lit ''2025-01-01T00:00:09.000Z''"
  "\<not> useHelicone store_blip_world" "\<not> useGemini store_blip_world"
  by (simp_all add: store_blip_world_def offline_world_def useHelicone_def useGemini_def)

text \<open>
  Claim C2. The orchestrator never lets an exception leave it, and a failure that the
  fallback chain does not absorb, such as a failure of the update to \<open>Generated\<close>, ends in
  an update that sets the status to \<open>Failed\<close> with a trace that contains an error message
  and a timestamp. The code returns normally and writes the status and the timestamp,
  but not the message. In \<open>store_blip_world\<close> the request for the outline \<open>Loops\<close> creates
  the record \<open>lesson-1\<close>, no credential is set, and the store answers the update to
  \<open>Generated\<close> with the error object whose message is \<open>TypeError: fetch failed\<close>. The run
  returns normally, its two updates are to \<open>Generated\<close> and to \<open>Failed\<close>, and the row ends
  \<open>Failed\<close> with a trace whose \<open>error\<close> is \<open>[object Object]\<close>, not the message of the error.
\<close>

theorem store_error_message_lost:
  "update_reply store_blip_world (lit ''lesson-1'')
     (generated_patch store_blip_world (lit ''Loops'')) = Some fetch_failed \<and>
   error_message fetch_failed = lit ''TypeError: fetch failed'' \<and>
   fst (generateLessonContent store_blip_world
     (table (POST store_blip_world Map.empty
        (Inr (JObj [(lit ''outline'', JStr (lit ''Loops''))]))))
     (lit ''lesson-1'') (lit ''Loops'')) = Inr () \<and>
   map (set_status \<circ> snd)
     (updates (snd (generateLessonContent store_blip_world
        (table (POST store_blip_world Map.empty
           (Inr (JObj [(lit ''outline'', JStr (lit ''Loops''))]))))
        (lit ''lesson-1'') (lit ''Loops'')))) = [Generated, Failed] \<and>
   map_option status
     (rows (snd (generateLessonContent store_blip_world
        (table (POST store_blip_world Map.empty
           (Inr (JObj [(lit ''outline'', JStr (lit ''Loops''))]))))
        (lit ''lesson-1'') (lit ''Loops''))) (lit ''lesson-1'')) = Some Failed \<and>
   map_option trace
     (rows (snd (generateLessonContent store_blip_world
        (table (POST store_blip_world Map.empty
           (Inr (JObj [(lit ''outline'', JStr (lit ''Loops''))]))))
        (lit ''lesson-1'') (lit ''Loops''))) (lit ''lesson-1'')) =
     Some (Some (Failure (lit ''[object Object]'') None (lit ''2025-01-01T00:00:09.000Z'')))"
proof -
  have "lit ''Loops'' \<noteq> []"
    by (simp add: lit_def)
  then show ?thesis
    by (simp add: POST_def insert_row_def store_blip_replies generated_patch_status
        fetch_failed_def generateLessonContent_def try_block_def catch_block_def update_row_def
        generate_content_alt apply_patch_def Let_def)
qed

text \<open>
  Claim C3, as stated, fails: it speaks of every invocation in which both adapters fail,
  and in some of them the store rejects the update to \<open>Generated\<close>. Then the error is
  thrown into the catch block, and the last update of the run sets the status to
  \<open>Failed\<close>. In \<open>rejecting_world\<close> both credentials are set, both adapters throw, and the
  updates of the run are the rejected one to \<open>Generated\<close> and then one to \<open>Failed\<close>.
\<close>

theorem both_fail_store_rejects_counterexample:
  "useHelicone rejecting_world \<and> useGemini rejecting_world \<and>
   helicone_attempt rejecting_world (lit ''Loops'') =
     Inl (Error (lit ''Connection error.'') None) \<and>
   gemini_attempt rejecting_world (lit ''Loops'') = Inl (Error (lit ''fetch failed'') None) \<and>
   map (\<lambda>u. set_status (snd u))
     (updates (snd (generateLessonContent rejecting_world Map.empty (lit ''lesson-1'')
        (lit ''Loops'')))) = [Generated, Failed] \<and>
   set_status (snd (last
     (updates (snd (generateLessonContent rejecting_world Map.empty (lit ''lesson-1'')
        (lit ''Loops'')))))) = Failed"
  by (simp add: rejecting_keys rejecting_attempts generateLessonContent_def try_block_def
      catch_block_def update_row_def generate_content_alt Let_def rejecting_update)

text \<open>
  Claim C3, amended. For every invocation in which both credentials are set and both
  adapters fail, the update that the orchestrator sends when generation ends sets the
  status to \<open>Generated\<close> (not \<open>Failed\<close>), with the content equal to the output of the mock
  generator, \<open>trace.mock = true\<close> and \<open>trace.fallback_reason\<close> equal to the error message of
  the last failing adapter (Gemini). It is the first update of the run, and the terminal
  one whenever the store accepts it.
\<close>

theorem both_adapters_fail:
  assumes "useHelicone w" and "useGemini w"
    and "helicone_attempt w outline = Inl e1" and "gemini_attempt w outline = Inl e2"
    and "generateLessonContent w st lessonId outline = (result, fx)"
  shows "set_status (generated_patch w outline) = Generated \<and>
     set_content (generated_patch w outline) =
       Some (generateMockLesson outline (isEasterEgg w outline)) \<and>
     (case set_trace (generated_patch w outline) of
        Trace t \<Rightarrow> mock t = Some True \<and> fallback_reason t = Some (describe e2)
      | Failure m s z \<Rightarrow> False) \<and>
     hd (updates fx) = (lessonId, generated_patch w outline) \<and>
     (update_reply w lessonId (generated_patch w outline) = None \<longrightarrow>
        updates fx = [(lessonId, generated_patch w outline)])"
  using assms
  by (auto simp: generateLessonContent_def try_block_def catch_block_def update_row_def
      generated_patch_def generate_content_alt Let_def split: prod.splits option.splits)

theorem both_adapters_fail_witness:
  "set_status (generated_patch both_down_world (lit ''Loops'')) = Generated \<and>
   set_content (generated_patch both_down_world (lit ''Loops'')) =
     Some (generateMockLesson (lit ''Loops'') (isEasterEgg both_down_world (lit ''Loops''))) \<and>
   (case set_trace (generated_patch both_down_world (lit ''Loops'')) of
      Trace t \<Rightarrow> mock t = Some True \<and> fallback_reason t = Some (lit ''fetch failed'')
    | Failure m s z \<Rightarrow> False) \<and>
   updates (snd (generateLessonContent both_down_world Map.empty (lit ''lesson-1'')
     (lit ''Loops''))) = [(lit ''lesson-1'', generated_patch both_down_world (lit ''Loops''))]"
proof -
  have u: "update_reply both_down_world (lit ''lesson-1'')
      (generated_patch both_down_world (lit ''Loops'')) = None"
    by (simp add: both_down_world_def offline_world_def)
  from both_adapters_fail [where w = both_down_world and outline = "lit ''Loops''"
      and st = Map.empty and lessonId = "lit ''lesson-1''"
      and ?e1.0 = "Error (lit ''Connection error.'') None"
      and ?e2.0 = "Error (lit ''fetch failed'') None"
      and result = "fst (generateLessonContent both_down_world Map.empty (lit ''lesson-1'')
        (lit ''Loops''))"
      and fx = "snd (generateLessonContent both_down_world Map.empty (lit ''lesson-1'')
        (lit ''Loops''))"]
    u
  show ?thesis
    by (simp add: both_down_keys both_down_attempts split: trace.splits)
qed

section \<open>Properties of the trace\<close>

lemma take12_summary:
  "take 12 (lit ''Generate a TypeScript educational module for: '' @ outline) = lit ''Generate a T''"
  by (simp add: lit_def)

lemma take12_normal: "take 12 (normal_prompt outline) = lit ''Generate a c''"
  by (simp add: normal_prompt_def normal_prompt_head_def text_of_def lit_def)

lemma take12_egg: "take 12 easter_egg_prompt = lit ''Generate a f''"
  by (simp add: easter_egg_prompt_def text_of_def lit_def)

lemma summary_is_not_the_prompt:
  "lit ''Generate a TypeScript educational module for: '' @ outline \<noteq> build_prompt w outline"
proof
  assume "lit ''Generate a TypeScript educational module for: '' @ outline = build_prompt w outline"
  then have "take 12 (lit ''Generate a TypeScript educational module for: '' @ outline) =
      take 12 (build_prompt w outline)"
    by simp
  then show False
    by (simp only: take12_summary build_prompt_def take12_normal take12_egg split: if_splits)
      (simp_all add: lit_def)
qed

lemma initial_trace_simps:
  "prompt (initial_trace w outline) = lit ''Generate a TypeScript educational module for: '' @ outline"
  "provider (initial_trace w outline) = None"
  "mock (initial_trace w outline) = None"
  by (simp_all add: initial_trace_def)


lemma gemini_up: "useGemini gemini_up_world" "\<not> useHelicone gemini_up_world"
  by (simp_all add: gemini_up_world_def offline_world_def useHelicone_def useGemini_def lit_def)

lemma gemini_up_attempt:
  "gemini_attempt gemini_up_world outline = Inr (lit ''export const x = 1;'')"
  by (simp add: gemini_up_world_def offline_world_def gemini_attempt_def generateWithGemini_def
      gemini_response_def gemini_candidate_def gemini_part_text_def gemini_metadata_def
      cleaned_def strip_fences_def after_fence_def trim_def whitespace_def lit_def)

lemma not_egg: "\<not> isEasterEgg gemini_up_world (lit ''Loops'')"
  by (simp add: gemini_up_world_def offline_world_def isEasterEgg_def ascii_lower_def lit_def)

lemma konami_egg: "isEasterEgg offline_world (lit ''Konami code'')"
  by (simp add: offline_world_def isEasterEgg_def ascii_lower_def lit_def)

text \<open>
  Claim C8, as stated, fails. The \<open>prompt\<close> member of the trace is written when the trace
  is created, before the prompt is built: it is the line
  \<open>Generate a TypeScript educational module for: <outline>\<close>, while the adapters are
  handed one of the two prompt templates. In \<open>gemini_up_world\<close> the Gemini adapter is
  called with the normal template for the outline \<open>Loops\<close>, and the trace holds the
  other text.
\<close>

theorem trace_prompt_counterexample:
  "snd (snd (generate_content gemini_up_world (lit ''Loops''))) =
     [(Gemini, normal_prompt (lit ''Loops''))] \<and>
   prompt (fst (snd (generate_content gemini_up_world (lit ''Loops'')))) =
     lit ''Generate a TypeScript educational module for: Loops'' \<and>
   prompt (fst (snd (generate_content gemini_up_world (lit ''Loops'')))) \<noteq>
     normal_prompt (lit ''Loops'')"
proof -
  have p: "build_prompt gemini_up_world (lit ''Loops'') = normal_prompt (lit ''Loops'')"
    by (simp add: build_prompt_def not_egg)
  have "lit ''Generate a TypeScript educational module for: '' @ lit ''Loops'' \<noteq>
      normal_prompt (lit ''Loops'')"
    using summary_is_not_the_prompt [of "lit ''Loops''" gemini_up_world] p by simp
  moreover have "lit ''Generate a TypeScript educational module for: '' @ lit ''Loops'' =
      lit ''Generate a TypeScript educational module for: Loops''"
    by (simp add: lit_def)
  ultimately show ?thesis
    by (simp add: generate_content_alt Let_def gemini_up gemini_up_attempt gemini_frame
        initial_trace_simps p)
qed

text \<open>
  Claim C8, amended. For every invocation the \<open>prompt\<close> member of the trace is the
  summary line \<open>Generate a TypeScript educational module for: <outline>\<close>, whichever
  template is chosen. Every adapter call of the run is handed the prompt built from
  the template (easter-egg or normal), and that prompt, which is also the one a mock run
  would have sent, always differs from the member of the trace.
\<close>

theorem trace_prompt_is_summary:
  assumes "generate_content w outline = (content', trace', made)"
  shows "prompt trace' = lit ''Generate a TypeScript educational module for: '' @ outline \<and>
     (\<forall>call\<in>set made. snd call = build_prompt w outline) \<and>
     prompt trace' \<noteq> build_prompt w outline"
proof -
  from assms have "prompt trace' = lit ''Generate a TypeScript educational module for: '' @ outline"
    and "\<forall>call\<in>set made. snd call = build_prompt w outline"
    by (auto simp: generate_content_alt Let_def helicone_frame gemini_frame initial_trace_simps
        split: sum.splits if_splits)
  then show ?thesis
    by (simp add: summary_is_not_the_prompt)
qed

theorem trace_prompt_is_summary_witness:
  "build_prompt offline_world (lit ''Konami code'') = easter_egg_prompt \<and>
   prompt (fst (snd (generate_content offline_world (lit ''Konami code'')))) =
     lit ''Generate a TypeScript educational module for: '' @ lit ''Konami code'' \<and>
   prompt (fst (snd (generate_content offline_world (lit ''Konami code'')))) \<noteq>
     easter_egg_prompt"
  using trace_prompt_is_summary [of offline_world "lit ''Konami code''"
      "fst (generate_content offline_world (lit ''Konami code''))"
      "fst (snd (generate_content offline_world (lit ''Konami code'')))"
      "snd (snd (generate_content offline_world (lit ''Konami code'')))"]
  by (auto simp: build_prompt_def konami_egg)





section \<open>Properties of the adapters\<close>

lemma lit_eq_Nil [simp]: "lit s = [] \<longleftrightarrow> s = []"
  by (simp add: lit_def)

lemma gemini_failures:
  "fetch w p = Inl e \<Longrightarrow> fst (generateWithGemini w p t) = Inl e"
  "fetch w p = Inr response \<Longrightarrow> \<not> ok response \<Longrightarrow> body_text response = Inr errorText \<Longrightarrow>
     fst (generateWithGemini w p t) =
       Inl (new_Error (lit ''Gemini API returned '' @ decimal (http_status response) @
              lit '': '' @ errorText))"
  by (simp_all add: generateWithGemini_def)

lemma gemini_invalid_structure:
  assumes "fetch w p = Inr response" and "ok response" and "body_json response = Inr (JObj kvs)"
    and "\<not> truthy (map_of kvs (lit ''candidates'')) \<or>
         \<not> isArray (map_of kvs (lit ''candidates'')) \<or>
         map_of kvs (lit ''candidates'') = Some (JArr [])"
  shows "fst (generateWithGemini w p t) =
     Inl (new_Error (lit ''Invalid response structure from Gemini API''))"
  using assms by (auto simp: generateWithGemini_def gemini_candidate_def)

lemma gemini_no_content:
  assumes "fetch w p = Inr response" and "ok response" and "body_json response = Inr (JObj kvs)"
    and "map_of kvs (lit ''candidates'') = Some (JArr (JObj c # cs))"
    and "\<not> truthy (map_of c (lit ''content'')) \<or>
         (\<exists>k. map_of c (lit ''content'') = Some (JObj k) \<and>
            (\<not> truthy (map_of k (lit ''parts'')) \<or> map_of k (lit ''parts'') = Some (JArr [])))"
  shows "fst (generateWithGemini w p t) =
     Inl (new_Error (lit ''No content in Gemini API response''))"
  using assms
  by (auto simp: generateWithGemini_def gemini_candidate_def gemini_part_text_def)

lemma gemini_first_part:
  assumes "fetch w p = Inr response" and "ok response" and "body_json response = Inr (JObj kvs)"
    and "map_of kvs (lit ''candidates'') = Some (JArr (JObj c # cs))"
    and "map_of c (lit ''content'') = Some (JObj k)"
    and "map_of k (lit ''parts'') = Some (JArr (JObj part # ps))"
  shows "fst (generateWithGemini w p t) = cleaned (lit ''content'') (map_of part (lit ''text''))"
  using assms
  by (auto simp: generateWithGemini_def gemini_candidate_def gemini_part_text_def
      gemini_metadata_def split: sum.splits)

lemma gemini_text:
  assumes "fetch w p = Inr response" and "ok response" and "body_json response = Inr (JObj kvs)"
    and "map_of kvs (lit ''candidates'') = Some (JArr (JObj c # cs))"
    and "map_of c (lit ''content'') = Some (JObj k)"
    and "map_of k (lit ''parts'') = Some (JArr (JObj part # ps))"
  shows "map_of part (lit ''text'') = Some (JStr s) \<Longrightarrow>
           fst (generateWithGemini w p t) = Inr (strip_fences s)"
    and "map_of part (lit ''text'') = None \<Longrightarrow>
           fst (generateWithGemini w p t) = Inl (cannot_read (lit ''undefined'') (lit ''replace''))"
    and "map_of part (lit ''text'') = Some v \<Longrightarrow> \<forall>s. v \<noteq> JStr s \<Longrightarrow>
           fst (generateWithGemini w p t) =
             Inl (if v = JNull then cannot_read (lit ''null'') (lit ''replace'')
                  else not_a_function (lit ''content'') (lit ''replace''))"
  using gemini_first_part [OF assms, of t]
  by (auto simp: cleaned_def split: json.splits)

lemma helicone_text:
  "openai_create w p = Inl e \<Longrightarrow> fst (generateWithHelicone w p t) = Inl e"
  "openai_create w p = Inr (JObj kvs) \<Longrightarrow>
   map_of kvs (lit ''choices'') = Some (JArr (JObj ch # chs)) \<Longrightarrow>
   map_of ch (lit ''message'') = Some (JObj m) \<Longrightarrow>
   map_of m (lit ''content'') = Some (JStr s) \<Longrightarrow>
     fst (generateWithHelicone w p t) = Inr (strip_fences s)"
  by (auto simp: generateWithHelicone_def helicone_content_def helicone_metadata_def
      or_empty_def cleaned_def strip_fences_def trim_def split: sum.splits)

lemma helicone_bad_content:
  assumes "openai_create w p = Inr (JObj kvs)"
    and "map_of kvs (lit ''choices'') = Some (JArr (JObj ch # chs))"
    and "map_of ch (lit ''message'') = Some (JObj m)"
    and "map_of m (lit ''content'') = Some v" and "truthy (Some v)" and "\<forall>s. v \<noteq> JStr s"
  shows "fst (generateWithHelicone w p t) = Inl (not_a_function or_empty_callee (lit ''replace''))"
  using assms
  by (cases v)
    (auto simp: generateWithHelicone_def helicone_content_def or_empty_def cleaned_def)

lemma strip_fences_Nil: "strip_fences [] = []"
  by (simp add: strip_fences_def trim_def)

text \<open>
  Claim C7, as stated, fails: neither adapter checks that the text it returns is not
  empty, and the Helicone adapter does not look at the list of choices at all
  (\<open>completion.choices?.[0]?.message?.content ?? ''\<close>). A Gemini reply whose first part
  has the empty text, and a completion whose list of choices is empty, both make the
  adapter return the empty text instead of failing.
\<close>

theorem adapters_return_empty_text_counterexample:
  "fetch gemini_blank_world (build_prompt gemini_blank_world (lit ''Loops'')) =
     Inr (gemini_response []) \<and>
   gemini_attempt gemini_blank_world (lit ''Loops'') = Inr [] \<and>
   openai_create no_choices_world (build_prompt no_choices_world (lit ''Loops'')) =
     Inr (JObj [(lit ''id'', JStr (lit ''chatcmpl-1'')), (lit ''choices'', JArr [])]) \<and>
   helicone_attempt no_choices_world (lit ''Loops'') = Inr []"
  by (simp add: gemini_blank_world_def no_choices_world_def offline_world_def
      gemini_attempt_def helicone_attempt_def generateWithGemini_def generateWithHelicone_def
      gemini_response_def gemini_candidate_def gemini_part_text_def gemini_metadata_def
      helicone_content_def helicone_metadata_def or_empty_def
      cleaned_def strip_fences_def trim_def lit_def)

text \<open>
  Claim C7, amended. Each provider adapter, given a prompt, returns text or fails with an
  error, as follows. The Gemini adapter passes on an error thrown by \<open>fetch\<close>, and fails
  with \<open>Gemini API returned <status>: <body>\<close> on a response that is not ok. On an ok
  response whose body is a JSON object it fails with
  \<open>Invalid response structure from Gemini API\<close> when the list of candidates is missing or
  falsy, not an array, or empty. When the first candidate is an object, it fails with
  \<open>No content in Gemini API response\<close> when the content of the candidate is missing or
  falsy, or is an object whose parts are missing, falsy or an empty array. When the
  content is an object whose parts are an array that starts with an object, it returns
  the text of that part, with the code fences stripped and trimmed, when the text is a
  string, and fails with a \<open>TypeError\<close> when the part has no text or a text that is not a
  string. The Helicone adapter passes on an error thrown by the client; when the
  completion is an object whose choices are an array that starts with an object whose
  message is an object with a content, it returns that content with the code fences
  stripped and trimmed when the content is a string, and fails with a \<open>TypeError\<close> when
  the content is a truthy value that is not a string. Neither adapter checks the text it
  returns: the empty text is returned as the empty text. Nothing is said of responses of
  any other shape.
\<close>

theorem adapter_contract:
  "(fetch w p = Inl e \<longrightarrow> fst (generateWithGemini w p t) = Inl e) \<and>
   (fetch w p = Inr response \<and> \<not> ok response \<and> body_text response = Inr errorText \<longrightarrow>
      fst (generateWithGemini w p t) =
        Inl (new_Error (lit ''Gemini API returned '' @ decimal (http_status response) @
               lit '': '' @ errorText))) \<and>
   (fetch w p = Inr response \<and> ok response \<and> body_json response = Inr (JObj kvs) \<longrightarrow>
      (\<not> truthy (map_of kvs (lit ''candidates'')) \<or>
       \<not> isArray (map_of kvs (lit ''candidates'')) \<or>
       map_of kvs (lit ''candidates'') = Some (JArr []) \<longrightarrow>
         fst (generateWithGemini w p t) =
           Inl (new_Error (lit ''Invalid response structure from Gemini API''))) \<and>
      (\<forall>c cs. map_of kvs (lit ''candidates'') = Some (JArr (JObj c # cs)) \<longrightarrow>
         (\<not> truthy (map_of c (lit ''content'')) \<or>
          (\<exists>k. map_of c (lit ''content'') = Some (JObj k) \<and>
             (\<not> truthy (map_of k (lit ''parts'')) \<or>
              map_of k (lit ''parts'') = Some (JArr []))) \<longrightarrow>
            fst (generateWithGemini w p t) =
              Inl (new_Error (lit ''No content in Gemini API response''))) \<and>
         (\<forall>k part ps.
            map_of c (lit ''content'') = Some (JObj k) \<and>
            map_of k (lit ''parts'') = Some (JArr (JObj part # ps)) \<longrightarrow>
              (\<forall>s. map_of part (lit ''text'') = Some (JStr s) \<longrightarrow>
                 fst (generateWithGemini w p t) = Inr (strip_fences s)) \<and>
              (map_of part (lit ''text'') = None \<longrightarrow>
                 fst (generateWithGemini w p t) =
                   Inl (cannot_read (lit ''undefined'') (lit ''replace''))) \<and>
              (\<forall>v. map_of part (lit ''text'') = Some v \<and> (\<forall>s. v \<noteq> JStr s) \<longrightarrow>
                 fst (generateWithGemini w p t) =
                   Inl (if v = JNull then cannot_read (lit ''null'') (lit ''replace'')
                        else not_a_function (lit ''content'') (lit ''replace'')))))) \<and>
   (openai_create w p = Inl e \<longrightarrow> fst (generateWithHelicone w p t) = Inl e) \<and>
   (\<forall>fields ch chs m s.
      openai_create w p = Inr (JObj fields) \<and>
      map_of fields (lit ''choices'') = Some (JArr (JObj ch # chs)) \<and>
      map_of ch (lit ''message'') = Some (JObj m) \<and>
      map_of m (lit ''content'') = Some (JStr s) \<longrightarrow>
        fst (generateWithHelicone w p t) = Inr (strip_fences s)) \<and>
   (\<forall>fields ch chs m v.
      openai_create w p = Inr (JObj fields) \<and>
      map_of fields (lit ''choices'') = Some (JArr (JObj ch # chs)) \<and>
      map_of ch (lit ''message'') = Some (JObj m) \<and>
      map_of m (lit ''content'') = Some v \<and> truthy (Some v) \<and> (\<forall>s. v \<noteq> JStr s) \<longrightarrow>
        fst (generateWithHelicone w p t) =
          Inl (not_a_function or_empty_callee (lit ''replace''))) \<and>
   strip_fences [] = []"
proof (intro conjI impI allI)
  assume "fetch w p = Inl e"
  then show "fst (generateWithGemini w p t) = Inl e"
    by (rule gemini_failures(1))
next
  assume "fetch w p = Inr response \<and> \<not> ok response \<and> body_text response = Inr errorText"
  then show "fst (generateWithGemini w p t) =
      Inl (new_Error (lit ''Gemini API returned '' @ decimal (http_status response) @
             lit '': '' @ errorText))"
    using gemini_failures(2) [of w p response errorText t] by blast
next
  assume "fetch w p = Inr response \<and> ok response \<and> body_json response = Inr (JObj kvs)"
    and "\<not> truthy (map_of kvs (lit ''candidates'')) \<or>
       \<not> isArray (map_of kvs (lit ''candidates'')) \<or>
       map_of kvs (lit ''candidates'') = Some (JArr [])"
  then show "fst (generateWithGemini w p t) =
      Inl (new_Error (lit ''Invalid response structure from Gemini API''))"
    using gemini_invalid_structure [of w p response kvs t] by blast
next
  fix c cs
  assume "fetch w p = Inr response \<and> ok response \<and> body_json response = Inr (JObj kvs)"
    and "map_of kvs (lit ''candidates'') = Some (JArr (JObj c # cs))"
    and "\<not> truthy (map_of c (lit ''content'')) \<or>
          (\<exists>k. map_of c (lit ''content'') = Some (JObj k) \<and>
             (\<not> truthy (map_of k (lit ''parts'')) \<or>
              map_of k (lit ''parts'') = Some (JArr [])))"
  then show "fst (generateWithGemini w p t) =
      Inl (new_Error (lit ''No content in Gemini API response''))"
    using gemini_no_content [of w p response kvs c cs t] by blast
next
  fix c cs k part ps s
  assume "fetch w p = Inr response \<and> ok response \<and> body_json response = Inr (JObj kvs)"
    and "map_of kvs (lit ''candidates'') = Some (JArr (JObj c # cs))"
    and "map_of c (lit ''content'') = Some (JObj k) \<and>
         map_of k (lit ''parts'') = Some (JArr (JObj part # ps))"
    and "map_of part (lit ''text'') = Some (JStr s)"
  then show "fst (generateWithGemini w p t) = Inr (strip_fences s)"
    using gemini_text(1) [of w p response kvs c cs k part ps s t] by blast
next
  fix c cs k part ps
  assume "fetch w p = Inr response \<and> ok response \<and> body_json response = Inr (JObj kvs)"
    and "map_of kvs (lit ''candidates'') = Some (JArr (JObj c # cs))"
    and "map_of c (lit ''content'') = Some (JObj k) \<and>
         map_of k (lit ''parts'') = Some (JArr (JObj part # ps))"
    and "map_of part (lit ''text'') = None"
  then show "fst (generateWithGemini w p t) =
      Inl (cannot_read (lit ''undefined'') (lit ''replace''))"
    using gemini_text(2) [of w p response kvs c cs k part ps t] by blast
next
  fix c cs k part ps v
  assume "fetch w p = Inr response \<and> ok response \<and> body_json response = Inr (JObj kvs)"
    and "map_of kvs (lit ''candidates'') = Some (JArr (JObj c # cs))"
    and "map_of c (lit ''content'') = Some (JObj k) \<and>
         map_of k (lit ''parts'') = Some (JArr (JObj part # ps))"
    and "map_of part (lit ''text'') = Some v \<and> (\<forall>s. v \<noteq> JStr s)"
  then show "fst (generateWithGemini w p t) =
      Inl (if v = JNull then cannot_read (lit ''null'') (lit ''replace'')
           else not_a_function (lit ''content'') (lit ''replace''))"
    using gemini_text(3) [of w p response kvs c cs k part ps v t] by blast
next
  assume "openai_create w p = Inl e"
  then show "fst (generateWithHelicone w p t) = Inl e"
    by (rule helicone_text(1))
next
  fix fields ch chs m s
  assume "openai_create w p = Inr (JObj fields) \<and>
      map_of fields (lit ''choices'') = Some (JArr (JObj ch # chs)) \<and>
      map_of ch (lit ''message'') = Some (JObj m) \<and>
      map_of m (lit ''content'') = Some (JStr s)"
  then show "fst (generateWithHelicone w p t) = Inr (strip_fences s)"
    using helicone_text(2) [of w p fields ch chs m s t] by blast
next
  fix fields ch chs m v
  assume "openai_create w p = Inr (JObj fields) \<and>
      map_of fields (lit ''choices'') = Some (JArr (JObj ch # chs)) \<and>
      map_of ch (lit ''message'') = Some (JObj m) \<and>
      map_of m (lit ''content'') = Some v \<and> truthy (Some v) \<and> (\<forall>s. v \<noteq> JStr s)"
  then show "fst (generateWithHelicone w p t) =
      Inl (not_a_function or_empty_callee (lit ''replace''))"
    using helicone_bad_content [of w p fields ch chs m v t] by blast
next
  show "strip_fences [] = []"
    by (rule strip_fences_Nil)
qed

theorem adapter_contract_witness:
  "fst (generateWithGemini empty_candidates_world (lit ''p'') (initial_trace offline_world [])) =
     Inl (new_Error (lit ''Invalid response structure from Gemini API'')) \<and>
   fst (generateWithGemini gemini_up_world (lit ''p'') (initial_trace offline_world [])) =
     Inr (strip_fences (lit ''export const x = 1;'')) \<and>
   fst (generateWithGemini gemini_blank_world (lit ''p'') (initial_trace offline_world [])) =
     Inr [] \<and>
   fst (generateWithHelicone offline_world (lit ''p'') (initial_trace offline_world [])) =
     Inl (Error (lit ''Connection error.'') None)"
proof -
  note a = adapter_contract [where w = empty_candidates_world and p = "lit ''p''"
      and t = "initial_trace offline_world []"
      and response = "\<lparr>ok = True, http_status = 200, body_text = Inr [],
                       body_json = Inr (JObj [(lit ''candidates'', JArr [])])\<rparr>"
      and kvs = "[(lit ''candidates'', JArr [])]"]
  have 1: "fst (generateWithGemini empty_candidates_world (lit ''p'')
      (initial_trace offline_world [])) =
     Inl (new_Error (lit ''Invalid response structure from Gemini API''))"
    using a by (simp add: empty_candidates_world_def offline_world_def)
  note b = adapter_contract [where w = gemini_up_world and p = "lit ''p''"
      and t = "initial_trace offline_world []"
      and response = "gemini_response (lit ''export const x = 1;'')"
      and kvs = "[(lit ''candidates'',
        JArr [JObj [(lit ''content'',
                      JObj [(lit ''parts'',
                              JArr [JObj [(lit ''text'', JStr (lit ''export const x = 1;''))]]),
                            (lit ''role'', JStr (lit ''model''))]),
                    (lit ''finishReason'', JStr (lit ''STOP''))]])]"]
  have 2: "fst (generateWithGemini gemini_up_world (lit ''p'') (initial_trace offline_world [])) =
     Inr (strip_fences (lit ''export const x = 1;''))"
    using b by (simp add: gemini_up_world_def offline_world_def gemini_response_def lit_def)
  note b' = adapter_contract [where w = gemini_blank_world and p = "lit ''p''"
      and t = "initial_trace offline_world []"
      and response = "gemini_response []"
      and kvs = "[(lit ''candidates'',
        JArr [JObj [(lit ''content'',
                      JObj [(lit ''parts'', JArr [JObj [(lit ''text'', JStr [])]]),
                            (lit ''role'', JStr (lit ''model''))]),
                    (lit ''finishReason'', JStr (lit ''STOP''))]])]"]
  have 3: "fst (generateWithGemini gemini_blank_world (lit ''p'')
      (initial_trace offline_world [])) = Inr []"
    using b' by (simp add: gemini_blank_world_def offline_world_def gemini_response_def lit_def)
  note c = adapter_contract [where w = offline_world and p = "lit ''p''"
      and t = "initial_trace offline_world []"
      and e = "Error (lit ''Connection error.'') None"]
  have 4: "fst (generateWithHelicone offline_world (lit ''p'') (initial_trace offline_world [])) =
     Inl (Error (lit ''Connection error.'') None)"
    using c by (simp add: offline_world_def)
  from 1 2 3 4 show ?thesis
    by blast
qed

section \<open>Properties of the create endpoint\<close>

text \<open>
  Claim C4, as stated, fails for outlines that consist of whitespace only: the handler
  tests \<open>!outline\<close>, and a string of three spaces is truthy. The insert is sent, the
  record is created and the reply is 200.
\<close>

theorem whitespace_outline_counterexample:
  "list_all whitespace (lit ''   '') \<and>
   code (reply (POST offline_world Map.empty (Inr (JObj [(lit ''outline'', JStr (lit ''   ''))]))))
     = 200 \<and>
   inserts (POST offline_world Map.empty (Inr (JObj [(lit ''outline'', JStr (lit ''   ''))])))
     = [\<lparr>new_outline = lit ''   '', new_title = lit ''   '', new_status = Generating\<rparr>] \<and>
   map_option status
     (table (POST offline_world Map.empty (Inr (JObj [(lit ''outline'', JStr (lit ''   ''))])))
        (lit ''lesson-1'')) = Some Generating"
proof -
  have t: "extractTitle (lit ''   '') = lit ''   ''"
    by (simp add: extractTitle_def first_six_def lit_def space_def)
  have w: "list_all whitespace (lit ''   '')"
    by (simp add: whitespace_def lit_def)
  show ?thesis
    by (simp add: w t POST_def insert_row_def offline_world_def Let_def)
qed

text \<open>
  Claim C4, amended. For every request body (a JSON object) whose outline is absent,
  \<open>null\<close> or the empty string, the create endpoint answers 400 and inserts nothing: no
  insert is sent, the table is unchanged and no generation is started. An outline that
  is a non-empty string, of whitespace only or not, is not rejected: the insert is sent
  with it.
\<close>

theorem POST_requires_outline:
  "(map_of kvs (lit ''outline'') = None \<or> map_of kvs (lit ''outline'') = Some JNull \<or>
    map_of kvs (lit ''outline'') = Some (JStr []) \<longrightarrow>
      POST w st (Inr (JObj kvs)) =
        \<lparr>reply = \<lparr>code = 400, body = ErrorBody (lit ''Outline is required'')\<rparr>,
         table = st, inserts = [], dispatched = None\<rparr>) \<and>
   (\<forall>s. map_of kvs (lit ''outline'') = Some (JStr s) \<and> s \<noteq> [] \<longrightarrow>
      inserts (POST w st (Inr (JObj kvs))) =
        [\<lparr>new_outline = s, new_title = extractTitle s, new_status = Generating\<rparr>])"
  by (auto simp: POST_def Let_def split: prod.splits sum.splits)

theorem POST_requires_outline_witness:
  "POST offline_world Map.empty (Inr (JObj [])) =
     \<lparr>reply = \<lparr>code = 400, body = ErrorBody (lit ''Outline is required'')\<rparr>,
      table = Map.empty, inserts = [], dispatched = None\<rparr> \<and>
   POST offline_world Map.empty (Inr (JObj [(lit ''outline'', JStr [])])) =
     \<lparr>reply = \<lparr>code = 400, body = ErrorBody (lit ''Outline is required'')\<rparr>,
      table = Map.empty, inserts = [], dispatched = None\<rparr> \<and>
   inserts (POST offline_world Map.empty (Inr (JObj [(lit ''outline'', JStr (lit ''Loops''))])))
     = [\<lparr>new_outline = lit ''Loops'', new_title = extractTitle (lit ''Loops''),
         new_status = Generating\<rparr>]"
  using POST_requires_outline [of "[]" offline_world Map.empty]
    POST_requires_outline [of "[(lit ''outline'', JStr [])]" offline_world Map.empty]
    POST_requires_outline [of "[(lit ''outline'', JStr (lit ''Loops''))]" offline_world Map.empty]
  by simp

section \<open>The invariant of the records\<close>

lemma mock_lesson_not_empty: "generateMockLesson outline egg \<noteq> []"
  by (simp add: generateMockLesson_def konami_lesson_def quiz_lesson_head_def text_of_def)

lemma generate_mock_content:
  assumes "generate_content w outline = (c, t, made)" and "mock t = Some True"
  shows "c \<noteq> []"
  using assms
  by (auto simp: generate_content_alt Let_def helicone_frame gemini_frame initial_trace_simps
      mock_lesson_not_empty split: sum.splits if_splits)

lemma in_ran_upd: "l \<in> ran (st(i \<mapsto> row)) \<Longrightarrow> l = row \<or> l \<in> ran st"
  by (auto simp: ran_def split: if_splits)

lemma POST_keeps_invariant:
  assumes "\<forall>l\<in>ran st. written_invariant l"
  shows "(\<forall>l\<in>ran (table (POST w st parsed)). written_invariant l) \<and>
     (\<forall>i s. dispatched (POST w st parsed) = Some (i, s) \<longrightarrow>
        (\<exists>row. table (POST w st parsed) i = Some row \<and> content row = None))"
proof -
  have fresh: "\<And>i s t. written_invariant
      \<lparr>lesson_id = i, lesson_outline = s, title = Some (extractTitle s), content = None,
       status = Generating, trace = None, created_at = t\<rparr>"
    by (simp add: written_invariant_def)
  show ?thesis
    using assms
    by (auto simp: POST_def insert_row_def internal_server_error_def Let_def
        dest!: in_ran_upd intro: fresh
        split: sum.splits option.splits json.splits prod.splits if_splits)
qed

lemma orchestrator_keeps_invariant:
  assumes inv: "\<forall>l\<in>ran st. written_invariant l"
    and row: "st i = Some row" and absent: "content row = None"
  shows "\<forall>l\<in>ran (rows (snd (generateLessonContent w st i outline))). written_invariant l"
proof -
  obtain c t made where g: "generate_content w outline = (c, t, made)"
    by (cases "generate_content w outline")
  have generated: "written_invariant
      (apply_patch \<lparr>set_content = Some c, set_status = Generated, set_trace = Trace t\<rparr> row)"
    using generate_mock_content [OF g]
    by (auto simp: written_invariant_def apply_patch_def)
  have failed: "\<And>m s. written_invariant
      (apply_patch \<lparr>set_content = None, set_status = Failed,
         set_trace = Failure m s (clock_catch w)\<rparr> row)"
    using absent by (simp add: written_invariant_def apply_patch_def)
  show ?thesis
    using inv row g generated failed
    by (auto simp: generateLessonContent_def try_block_def catch_block_def update_row_def
        Let_def dest!: in_ran_upd split: option.splits)
qed

lemma offline_keys: "\<not> useHelicone offline_world" "\<not> useGemini offline_world"
  by (simp_all add: offline_world_def useHelicone_def useGemini_def)

lemma null_keys: "useHelicone helicone_null_world" "\<not> useGemini helicone_null_world"
  by (simp_all add: helicone_null_world_def offline_world_def useHelicone_def useGemini_def)

lemma null_attempt: "helicone_attempt helicone_null_world outline = Inr []"
  by (simp add: helicone_attempt_def generateWithHelicone_def helicone_null_world_def
      offline_world_def completion_with_def helicone_content_def helicone_metadata_def
      or_empty_def cleaned_def strip_fences_def trim_def lit_def)

lemma POST_loops:
  assumes "insert_reply w = (\<lambda>c. Inr (lit ''lesson-1'', lit ''2025-01-01T00:00:00.000Z''))"
  shows "POST w Map.empty (Inr (JObj [(lit ''outline'', JStr (lit ''Loops''))])) =
     \<lparr>reply = \<lparr>code = 200, body = LessonCreated (lit ''lesson-1'') (lit ''Generating'')\<rparr>,
      table = [lit ''lesson-1'' \<mapsto>
        \<lparr>lesson_id = lit ''lesson-1'', lesson_outline = lit ''Loops'',
         title = Some (extractTitle (lit ''Loops'')), content = None, status = Generating,
         trace = None, created_at = lit ''2025-01-01T00:00:00.000Z''\<rparr>],
      inserts = [\<lparr>new_outline = lit ''Loops'', new_title = extractTitle (lit ''Loops''),
                  new_status = Generating\<rparr>],
      dispatched = Some (lit ''lesson-1'', lit ''Loops'')\<rparr>"
  by (simp add: POST_def insert_row_def assms Let_def)

lemma null_replies:
  "insert_reply helicone_null_world =
     (\<lambda>c. Inr (lit ''lesson-1'', lit ''2025-01-01T00:00:00.000Z''))"
  "update_reply helicone_null_world i p = None"
  by (simp_all add: helicone_null_world_def offline_world_def)

lemma offline_replies:
  "insert_reply offline_world =
     (\<lambda>c. Inr (lit ''lesson-1'', lit ''2025-01-01T00:00:00.000Z''))"
  "update_reply offline_world i p = None"
  by (simp_all add: offline_world_def)

text \<open>
  Claim C6, as stated, fails: nothing checks that the text of an adapter is not empty
  before it is stored. In \<open>helicone_null_world\<close> the request for the outline \<open>Loops\<close>
  creates the record \<open>lesson-1\<close>, the Helicone adapter returns the empty text, and the
  record ends with the status \<open>Generated\<close> and the content \<open>""\<close>.
\<close>

theorem empty_content_counterexample:
  "dispatched (POST helicone_null_world Map.empty
      (Inr (JObj [(lit ''outline'', JStr (lit ''Loops''))]))) =
     Some (lit ''lesson-1'', lit ''Loops'') \<and>
   helicone_attempt helicone_null_world (lit ''Loops'') = Inr [] \<and>
   map_option status
     (rows (snd (generateLessonContent helicone_null_world
        (table (POST helicone_null_world Map.empty
           (Inr (JObj [(lit ''outline'', JStr (lit ''Loops''))]))))
        (lit ''lesson-1'') (lit ''Loops''))) (lit ''lesson-1'')) = Some Generated \<and>
   map_option content
     (rows (snd (generateLessonContent helicone_null_world
        (table (POST helicone_null_world Map.empty
           (Inr (JObj [(lit ''outline'', JStr (lit ''Loops''))]))))
        (lit ''lesson-1'') (lit ''Loops''))) (lit ''lesson-1'')) = Some (Some []) \<and>
   map_option record_invariant
     (rows (snd (generateLessonContent helicone_null_world
        (table (POST helicone_null_world Map.empty
           (Inr (JObj [(lit ''outline'', JStr (lit ''Loops''))]))))
        (lit ''lesson-1'') (lit ''Loops''))) (lit ''lesson-1'')) = Some False"
  by (simp add: POST_loops [OF null_replies(1)] null_replies(2) null_attempt null_keys
      generateLessonContent_def try_block_def update_row_def generate_content_alt Let_def
      apply_patch_def record_invariant_def)

text \<open>
  Claim C6, amended. Every lesson record written by this core satisfies: if the status is
  \<open>Generated\<close> then the content is present and the trace is present, and the content is
  not empty when the trace marks it as the output of the mock generator
  (\<open>trace.mock = true\<close>); if the status is \<open>Generating\<close> the content is absent; if the
  status is \<open>Failed\<close> the content is absent. If the table satisfies this before a request,
  it does so after the insert of \<open>POST\<close> and at the end of the run of the orchestrator
  that the request starts, on every generation path, whatever the store accepts.
\<close>

theorem written_records_invariant:
  assumes "\<forall>l\<in>ran st. written_invariant l"
  shows "(\<forall>l\<in>ran (table (fst (run_request w st parsed))). written_invariant l) \<and>
     (\<forall>fx. snd (run_request w st parsed) = Some fx \<longrightarrow>
        (\<forall>l\<in>ran (rows fx). written_invariant l))"
proof -
  note post = POST_keeps_invariant [OF assms, of w parsed]
  show ?thesis
  proof (cases "dispatched (POST w st parsed)")
    case None
    with post show ?thesis
      by (simp add: run_request_def Let_def)
  next
    case (Some call)
    obtain i s where call: "call = (i, s)"
      by (cases call)
    with Some post obtain row where "table (POST w st parsed) i = Some row"
      and "content row = None"
      by blast
    with post have "\<forall>l\<in>ran (rows (snd (generateLessonContent w (table (POST w st parsed)) i s))).
        written_invariant l"
      by (intro orchestrator_keeps_invariant) simp_all
    with Some call post show ?thesis
      by (simp add: run_request_def Let_def)
  qed
qed

theorem written_records_invariant_witness:
  "ran (Map.empty :: store) = {} \<and>
   map_option status
     (rows (snd (generateLessonContent offline_world
        (table (POST offline_world Map.empty
           (Inr (JObj [(lit ''outline'', JStr (lit ''Loops''))]))))
        (lit ''lesson-1'') (lit ''Loops''))) (lit ''lesson-1'')) = Some Generated \<and>
   map_option written_invariant
     (rows (snd (generateLessonContent offline_world
        (table (POST offline_world Map.empty
           (Inr (JObj [(lit ''outline'', JStr (lit ''Loops''))]))))
        (lit ''lesson-1'') (lit ''Loops''))) (lit ''lesson-1'')) = Some True"
proof -
  let ?req = "Inr (JObj [(lit ''outline'', JStr (lit ''Loops''))]) :: jserror + json"
  let ?fx = "snd (generateLessonContent offline_world (table (POST offline_world Map.empty ?req))
      (lit ''lesson-1'') (lit ''Loops''))"
  have run: "snd (run_request offline_world Map.empty ?req) = Some ?fx"
    by (simp add: run_request_def Let_def POST_loops [OF offline_replies(1)])
  obtain row where row: "rows ?fx (lit ''lesson-1'') = Some row" and st: "status row = Generated"
    by (simp add: POST_loops [OF offline_replies(1)] offline_replies(2) offline_keys
        generateLessonContent_def try_block_def update_row_def generate_content_alt Let_def
        apply_patch_def)
  from written_records_invariant [of Map.empty offline_world ?req] run
  have "\<forall>l\<in>ran (rows ?fx). written_invariant l"
    by simp
  with row have "written_invariant row"
    by (auto intro: ranI)
  with row st show ?thesis
    by simp
qed

end
